theory Spec2Isabelle
  imports Complex_Main "HOL-Library.Multiset"
begin

section \<open>Numbers and values\<close>

text \<open>
  The analytics engine of the repository is \<^verbatim>\<open>services/dataProcessor.ts\<close>.  Its numbers
  are JavaScript numbers.  A finite number is modelled as a real: rounding, overflow and
  the sign of zero are not modelled.  The non-finite values are kept as constructors,
  since the code produces them itself (\<^verbatim>\<open>Infinity\<close> as a starting value, \<^verbatim>\<open>0 / 0\<close> for a
  column without variance) and tests for them (\<^verbatim>\<open>isNaN\<close>).  Cell values, feature matrices
  and everything computed from them by finite sums are reals; a \<open>jsnum\<close> appears where a
  division by zero or an infinite operand can occur.
\<close>

datatype jsnum = Fin real | PosInf | NegInf | NaN

fun jneg :: "jsnum \<Rightarrow> jsnum" where
  "jneg (Fin a) = Fin (- a)"
| "jneg PosInf = NegInf"
| "jneg NegInf = PosInf"
| "jneg NaN = NaN"

fun jadd :: "jsnum \<Rightarrow> jsnum \<Rightarrow> jsnum" where
  "jadd NaN b = NaN"
| "jadd a NaN = NaN"
| "jadd (Fin a) (Fin b) = Fin (a + b)"
| "jadd PosInf NegInf = NaN"
| "jadd NegInf PosInf = NaN"
| "jadd PosInf b = PosInf"
| "jadd a PosInf = PosInf"
| "jadd NegInf b = NegInf"
| "jadd a NegInf = NegInf"

definition jsub :: "jsnum \<Rightarrow> jsnum \<Rightarrow> jsnum" where
  "jsub a b = jadd a (jneg b)"

text \<open>Division; a zero divisor is taken as \<open>+0\<close>.\<close>

fun jdiv :: "jsnum \<Rightarrow> jsnum \<Rightarrow> jsnum" where
  "jdiv NaN b = NaN"
| "jdiv a NaN = NaN"
| "jdiv (Fin a) (Fin b) =
     (if b = 0 then (if a = 0 then NaN else if 0 < a then PosInf else NegInf)
      else Fin (a / b))"
| "jdiv (Fin a) PosInf = Fin 0"
| "jdiv (Fin a) NegInf = Fin 0"
| "jdiv PosInf (Fin b) = (if b < 0 then NegInf else PosInf)"
| "jdiv NegInf (Fin b) = (if b < 0 then PosInf else NegInf)"
| "jdiv PosInf PosInf = NaN"
| "jdiv PosInf NegInf = NaN"
| "jdiv NegInf PosInf = NaN"
| "jdiv NegInf NegInf = NaN"

text \<open>\<^verbatim>\<open>a > b\<close>: false when either side is \<^verbatim>\<open>NaN\<close>.\<close>

fun jgt :: "jsnum \<Rightarrow> jsnum \<Rightarrow> bool" where
  "jgt NaN b = False"
| "jgt a NaN = False"
| "jgt (Fin a) (Fin b) = (b < a)"
| "jgt PosInf PosInf = False"
| "jgt PosInf b = True"
| "jgt NegInf b = False"
| "jgt (Fin a) PosInf = False"
| "jgt (Fin a) NegInf = True"

text \<open>\<^verbatim>\<open>Math.max\<close> and \<^verbatim>\<open>Math.min\<close> of two numbers.\<close>

fun jmax :: "jsnum \<Rightarrow> jsnum \<Rightarrow> jsnum" where
  "jmax NaN b = NaN"
| "jmax a NaN = NaN"
| "jmax a b = (if jgt b a then b else a)"

fun jmin :: "jsnum \<Rightarrow> jsnum \<Rightarrow> jsnum" where
  "jmin NaN b = NaN"
| "jmin a NaN = NaN"
| "jmin a b = (if jgt a b then b else a)"

definition isNaN :: "jsnum \<Rightarrow> bool" where
  "isNaN a = (a = NaN)"

text \<open>
  The values the third argument of \<^verbatim>\<open>performClustering\<close> receives at run time: the
  declared boolean, a number, or nothing.  \<open>truthy\<close> is JavaScript's \<^verbatim>\<open>ToBoolean\<close>.
\<close>

datatype jsval = JBool bool | JNumber jsnum | JUndefined

fun truthy :: "jsval \<Rightarrow> bool" where
  "truthy (JBool b) = b"
| "truthy (JNumber (Fin a)) = (a \<noteq> 0)"
| "truthy (JNumber NaN) = False"
| "truthy (JNumber PosInf) = True"
| "truthy (JNumber NegInf) = True"
| "truthy JUndefined = False"

text \<open>A thrown \<^verbatim>\<open>Error\<close> with its message.\<close>

datatype error = Error string

text \<open>
  \<^verbatim>\<open>DataRow = Record<string, string | number | null>\<close>; a column missing from a row reads
  as \<^verbatim>\<open>undefined\<close>.
\<close>

datatype cell = CNum real | CStr string | CNull

type_synonym DataRow = "string \<rightharpoonup> cell"

type_synonym matrix = "real list list"

text \<open>
  \<^verbatim>\<open>Number(d[col]) || 0\<close>.  \<^verbatim>\<open>Number(undefined)\<close> is \<^verbatim>\<open>NaN\<close> and \<^verbatim>\<open>Number(null)\<close> is \<open>0\<close>,
  both give \<open>0\<close>.  For a string cell the result depends on JavaScript's number syntax,
  which is no part of the repository: \<open>nos s\<close> stands for the value of
  \<^verbatim>\<open>Number(s) || 0\<close> on the string \<open>s\<close>.
\<close>

definition coerce :: "(string \<Rightarrow> real) \<Rightarrow> DataRow \<Rightarrow> string \<Rightarrow> real" where
  "coerce nos d col =
     (case d col of
        None \<Rightarrow> 0
      | Some CNull \<Rightarrow> 0
      | Some (CNum x) \<Rightarrow> x
      | Some (CStr s) \<Rightarrow> nos s)"

section \<open>The statistics library\<close>

text \<open>
  \<^verbatim>\<open>import * as ss from 'simple-statistics'\<close>: the package is a dependency, not a file of
  the repository.  The functions the engine calls are written here as the package
  implements them, with every \<^verbatim>\<open>throw\<close> as \<open>Inl\<close>.
\<close>

definition ss_mean :: "real list \<Rightarrow> error + real" where
  "ss_mean x =
     (if length x = 0 then Inl (Error ''mean requires at least one data point'')
      else Inr (sum_list x / real (length x)))"

definition sumNthPowerDeviations2 :: "real list \<Rightarrow> error + real" where
  "sumNthPowerDeviations2 x =
     (case ss_mean x of
        Inl e \<Rightarrow> Inl e
      | Inr m \<Rightarrow> Inr (sum_list (map (\<lambda>v. (v - m) * (v - m)) x)))"

text \<open>\<^verbatim>\<open>ss.variance\<close> divides by the number of values (population variance).\<close>

definition ss_variance :: "real list \<Rightarrow> error + real" where
  "ss_variance x =
     (if length x = 0 then Inl (Error ''variance requires at least one data point'')
      else (case sumNthPowerDeviations2 x of
              Inl e \<Rightarrow> Inl e
            | Inr s \<Rightarrow> Inr (s / real (length x))))"

definition ss_standardDeviation :: "real list \<Rightarrow> error + real" where
  "ss_standardDeviation x =
     (if length x = 1 then Inr 0
      else (case ss_variance x of
              Inl e \<Rightarrow> Inl e
            | Inr v \<Rightarrow> Inr (sqrt v)))"

text \<open>The sample versions divide by \<open>n - 1\<close> and need two values.\<close>

definition ss_sampleVariance :: "real list \<Rightarrow> error + real" where
  "ss_sampleVariance x =
     (if length x < 2 then Inl (Error ''sampleVariance requires at least two data points'')
      else (case sumNthPowerDeviations2 x of
              Inl e \<Rightarrow> Inl e
            | Inr s \<Rightarrow> Inr (s / real (length x - 1))))"

definition ss_sampleStandardDeviation :: "real list \<Rightarrow> error + real" where
  "ss_sampleStandardDeviation x =
     (case ss_sampleVariance x of
        Inl e \<Rightarrow> Inl e
      | Inr v \<Rightarrow> Inr (sqrt v))"

definition ss_sampleCovariance :: "real list \<Rightarrow> real list \<Rightarrow> error + real" where
  "ss_sampleCovariance x y =
     (if length x \<noteq> length y
      then Inl (Error ''sampleCovariance requires samples with equal lengths'')
      else if length x < 2
      then Inl (Error ''sampleCovariance requires at least two data points in each sample'')
      else (case ss_mean x of
              Inl e \<Rightarrow> Inl e
            | Inr xmean \<Rightarrow>
               (case ss_mean y of
                  Inl e \<Rightarrow> Inl e
                | Inr ymean \<Rightarrow>
                    Inr (sum_list (map (\<lambda>i. (x ! i - xmean) * (y ! i - ymean)) [0..<length x])
                         / real (length x - 1)))))"

text \<open>\<^verbatim>\<open>return cov / xstd / ystd\<close>: no test for a zero deviation.\<close>

definition ss_sampleCorrelation :: "real list \<Rightarrow> real list \<Rightarrow> error + jsnum" where
  "ss_sampleCorrelation x y =
     (case ss_sampleCovariance x y of
        Inl e \<Rightarrow> Inl e
      | Inr cov \<Rightarrow>
         (case ss_sampleStandardDeviation x of
            Inl e \<Rightarrow> Inl e
          | Inr xstd \<Rightarrow>
             (case ss_sampleStandardDeviation y of
                Inl e \<Rightarrow> Inl e
              | Inr ystd \<Rightarrow> Inr (jdiv (jdiv (Fin cov) (Fin xstd)) (Fin ystd)))))"

section \<open>Correlation\<close>

text \<open>
  Record fields are constants of the theory, so the fields of the result types carry a
  prefix: \<open>pr_matrix\<close> is \<^verbatim>\<open>matrix\<close> of \<^verbatim>\<open>PearsonResult\<close>, \<open>cr_k\<close> is \<^verbatim>\<open>k\<close> of
  \<^verbatim>\<open>ClusterResult\<close>, and so on.
\<close>

text \<open>
  \<^verbatim>\<open>matrix\<close> and its rows are plain objects created by \<^verbatim>\<open>{}\<close>, used as maps from column
  names.  One key is not stored by an assignment: \<^verbatim>\<open>obj['__proto__'] = v\<close> calls the setter
  that every plain object inherits, which makes \<open>v\<close> the prototype of \<open>obj\<close> when \<open>v\<close> is an
  object and does nothing when \<open>v\<close> is a number; in neither case does \<open>obj\<close> get a property.
  \<open>pr_matrix\<close> holds the properties of \<^verbatim>\<open>matrix\<close>, \<open>pr_proto\<close> the row object that has become
  its prototype, if there is one.
\<close>

record PearsonResult =
  pr_matrix :: "string \<rightharpoonup> (string \<rightharpoonup> jsnum)"
  pr_proto :: "(string \<rightharpoonup> jsnum) option"
  pr_columns :: "string list"
  pr_datasetName :: string

text \<open>The body of the inner \<^verbatim>\<open>forEach\<close>: the \<^verbatim>\<open>try\<close> and its \<^verbatim>\<open>catch\<close>.\<close>

definition pearson_entry :: "(string \<Rightarrow> real) \<Rightarrow> DataRow list \<Rightarrow> string \<Rightarrow> string \<Rightarrow> jsnum" where
  "pearson_entry nos data col1 col2 =
     (let val1 = map (\<lambda>d. coerce nos d col1) data;
          val2 = map (\<lambda>d. coerce nos d col2) data
      in case ss_sampleCorrelation val1 val2 of
           Inr r \<Rightarrow> r
         | Inl e \<Rightarrow> (if col1 = col2 then Fin 1 else Fin 0))"

definition pearson_row ::
  "(string \<Rightarrow> real) \<Rightarrow> DataRow list \<Rightarrow> string list \<Rightarrow> string \<Rightarrow> (string \<rightharpoonup> jsnum)" where
  "pearson_row nos data selectedCols col1 =
     fold (\<lambda>col2 row. if col2 = ''__proto__'' then row
                       else row(col2 \<mapsto> pearson_entry nos data col1 col2))
       selectedCols Map.empty"

text \<open>
  \<^verbatim>\<open>matrix[col1] = {}\<close> with the row the inner loop then fills: the object is the pair of
  its properties and the row that has replaced its prototype.
\<close>

definition assign_row ::
  "string \<Rightarrow> (string \<rightharpoonup> jsnum)
     \<Rightarrow> (string \<rightharpoonup> (string \<rightharpoonup> jsnum)) \<times> (string \<rightharpoonup> jsnum) option
     \<Rightarrow> (string \<rightharpoonup> (string \<rightharpoonup> jsnum)) \<times> (string \<rightharpoonup> jsnum) option" where
  "assign_row col1 row obj =
     (if col1 = ''__proto__'' then (fst obj, Some row) else ((fst obj)(col1 \<mapsto> row), snd obj))"

definition calculatePearson ::
  "(string \<Rightarrow> real) \<Rightarrow> DataRow list \<Rightarrow> string list \<Rightarrow> string \<Rightarrow> PearsonResult" where
  "calculatePearson nos data selectedCols fileName =
     (let obj = fold (\<lambda>col1. assign_row col1 (pearson_row nos data selectedCols col1))
                  selectedCols (Map.empty, None)
      in \<lparr> pr_matrix = fst obj,
           pr_proto = snd obj,
           pr_columns = selectedCols,
           pr_datasetName = takeWhile (\<lambda>c. c \<noteq> CHR ''.'') fileName \<rparr>)"

text \<open>Inputs used for the concrete evaluations below.\<close>

definition no_numeric_strings :: "string \<Rightarrow> real" where
  "no_numeric_strings s = 0"

definition row_ab :: "real \<Rightarrow> real \<Rightarrow> DataRow" where
  "row_ab a b = [''a'' \<mapsto> CNum a, ''b'' \<mapsto> CNum b]"

section \<open>The clustering libraries\<close>

text \<open>
  \<^verbatim>\<open>kmeans\<close> (package ml-kmeans) and \<^verbatim>\<open>PCA\<close> (package ml-pca) are dependencies too;
  they are parameters of the model.  Of the result object of \<^verbatim>\<open>kmeans\<close> the engine reads
  \<^verbatim>\<open>clusters\<close>, \<^verbatim>\<open>centroids\<close> and \<^verbatim>\<open>inertia\<close>; the package's result has the first two (with
  \<^verbatim>\<open>converged\<close> and \<^verbatim>\<open>iterations\<close>) and no property \<^verbatim>\<open>inertia\<close>, so \<^verbatim>\<open>res.inertia\<close> is
  \<^verbatim>\<open>undefined\<close>.  The k-means++ seeding draws random numbers, so a
  call takes the state \<open>'s\<close> of the random source and returns the next one.
  \<open>pca_predict m\<close> stands for \<^verbatim>\<open>new PCA(m).predict(m).to2DArray()\<close>, the only way the
  engine uses the package: the rows of \<open>m\<close> in principal-component coordinates, with as
  many coordinates as the package returns when no \<^verbatim>\<open>nComponents\<close> is passed.
\<close>

record kmeans_result =
  km_clusters :: "nat list"
  km_centroids :: matrix

record 's libs =
  number_of_string :: "string \<Rightarrow> real"
  kmeans :: "'s \<Rightarrow> matrix \<Rightarrow> nat \<Rightarrow> error + (kmeans_result \<times> 's)"
  pca_predict :: "matrix \<Rightarrow> error + matrix"

text \<open>
  What the packages document about their results: k-means returns one label below \<open>k\<close>
  for every row, accepts every \<open>k\<close> from 1 to the number of rows and throws for a \<open>k\<close>
  above the number of rows; the projection has one row for every row.
\<close>

definition kmeans_labels_ok :: "'s libs \<Rightarrow> bool" where
  "kmeans_labels_ok env =
     (\<forall>s m k res s'. kmeans env s m k = Inr (res, s') \<longrightarrow>
        length (km_clusters res) = length m \<and> (\<forall>c \<in> set (km_clusters res). c < k))"

definition kmeans_accepts :: "'s libs \<Rightarrow> bool" where
  "kmeans_accepts env =
     (\<forall>s m k. 0 < k \<and> k \<le> length m \<longrightarrow> \<not> isl (kmeans env s m k))"

definition kmeans_rejects :: "'s libs \<Rightarrow> bool" where
  "kmeans_rejects env =
     (\<forall>s m k. length m < k \<longrightarrow> isl (kmeans env s m k))"

definition pca_rows_ok :: "'s libs \<Rightarrow> bool" where
  "pca_rows_ok env =
     (\<forall>m p. pca_predict env m = Inr p \<longrightarrow> length p = length m)"

section \<open>Helpers of the array code\<close>

text \<open>\<^verbatim>\<open>xs[i]\<close> where the index can be out of range: \<open>None\<close> is \<^verbatim>\<open>undefined\<close>.\<close>

definition nth_opt :: "'a list \<Rightarrow> nat \<Rightarrow> 'a option" where
  "nth_opt xs i = (if i < length xs then Some (xs ! i) else None)"

text \<open>\<^verbatim>\<open>xs.indexOf(v)\<close>: \<open>None\<close> is \<open>-1\<close>.\<close>

fun indexOf :: "'a list \<Rightarrow> 'a \<Rightarrow> nat option" where
  "indexOf [] v = None"
| "indexOf (x # xs) v = (if x = v then Some 0 else map_option Suc (indexOf xs v))"

text \<open>\<^verbatim>\<open>xs.filter((_, i) => P(i))\<close>.\<close>

definition filter_idx :: "(nat \<Rightarrow> bool) \<Rightarrow> 'a list \<Rightarrow> 'a list" where
  "filter_idx P xs = map snd (filter (\<lambda>(i, x). P i) (zip [0..<length xs] xs))"

text \<open>\<^verbatim>\<open>Array.from(new Set(xs))\<close>: the distinct elements in the order of their first occurrence.\<close>

definition uniq :: "'a list \<Rightarrow> 'a list" where
  "uniq xs = rev (remdups (rev xs))"

text \<open>\<^verbatim>\<open>xs.map(f)\<close> where \<open>f\<close> can throw: the first throw ends the map.\<close>

fun mapM_res :: "('a \<Rightarrow> error + 'b) \<Rightarrow> 'a list \<Rightarrow> error + 'b list" where
  "mapM_res f [] = Inr []"
| "mapM_res f (x # xs) =
     (case f x of
        Inl e \<Rightarrow> Inl e
      | Inr y \<Rightarrow> (case mapM_res f xs of Inl e \<Rightarrow> Inl e | Inr ys \<Rightarrow> Inr (y # ys)))"

section \<open>Distances and outliers\<close>

text \<open>
  \<^verbatim>\<open>Math.sqrt(a.reduce((acc, val, i) => acc + Math.pow(val - b[i], 2), 0))\<close>.  The rows of
  one matrix have the same length, so \<^verbatim>\<open>b[i]\<close> is in range.
\<close>

definition euclideanDistance :: "real list \<Rightarrow> real list \<Rightarrow> real" where
  "euclideanDistance a b = sqrt (fold (\<lambda>i acc. acc + (a ! i - b ! i)\<^sup>2) [0..<length a] 0)"

text \<open>The score of one point: the sorted distances to all points, \<^verbatim>\<open>slice(1, 6)\<close>, the mean.\<close>

definition knn_score :: "matrix \<Rightarrow> real list \<Rightarrow> error + real" where
  "knn_score projected p1 =
     (let dists = sort (map (\<lambda>p2. euclideanDistance p1 p2) projected)
      in ss_mean (take 5 (drop 1 dists)))"

definition detectOutliers :: "'s libs \<Rightarrow> matrix \<Rightarrow> error + nat list" where
  "detectOutliers env m =
     (if length m < 5 then Inr []
      else (case pca_predict env m of
              Inl e \<Rightarrow> Inl e
            | Inr projected \<Rightarrow>
               (case mapM_res (knn_score projected) projected of
                  Inl e \<Rightarrow> Inl e
                | Inr scores \<Rightarrow>
                   (case ss_mean scores of
                      Inl e \<Rightarrow> Inl e
                    | Inr meanScore \<Rightarrow>
                       (case ss_standardDeviation scores of
                          Inl e \<Rightarrow> Inl e
                        | Inr stdScore \<Rightarrow>
                           (let threshold = meanScore + 2 * stdScore
                            in Inr (filter (\<lambda>i. threshold < scores ! i) [0..<length scores])))))))"

section \<open>Silhouette\<close>

record sil_sample =
  s_cluster :: nat
  s_value :: jsnum

record sil_result =
  sil_avg :: jsnum
  sil_samples :: "sil_sample list"

text \<open>
  The label array has one label for every row of the matrix (it is the \<^verbatim>\<open>clusters\<close> of a
  k-means run on that matrix), so \<^verbatim>\<open>clusters[i]\<close> and \<^verbatim>\<open>matrix[idx]\<close> are in range.
\<close>

definition avg_dist :: "matrix \<Rightarrow> real list \<Rightarrow> nat list \<Rightarrow> real" where
  "avg_dist m point idxs =
     fold (\<lambda>idx acc. acc + euclideanDistance point (m ! idx)) idxs 0 / real (length idxs)"

definition silhouette_sample :: "matrix \<Rightarrow> nat list \<Rightarrow> nat \<Rightarrow> sil_sample" where
  "silhouette_sample m clusters i =
     (let point = m ! i;
          clusterI = clusters ! i;
          sameClusterIndices =
            filter (\<lambda>idx. clusters ! idx = clusterI \<and> idx \<noteq> i) [0..<length clusters];
          ai = (if 0 < length sameClusterIndices then avg_dist m point sameClusterIndices else 0);
          otherClusters = filter (\<lambda>c. c \<noteq> clusterI) (uniq clusters);
          bi = fold (\<lambda>otherC bi.
                 jmin bi (Fin (avg_dist m point
                   (filter (\<lambda>idx. clusters ! idx = otherC) [0..<length clusters]))))
                 otherClusters PosInf;
          si = jdiv (jsub bi (Fin ai)) (jmax (Fin ai) bi)
      in \<lparr> s_cluster = clusterI, s_value = (if isNaN si then Fin 0 else si) \<rparr>)"

definition calculateSilhouette :: "matrix \<Rightarrow> nat list \<Rightarrow> sil_result" where
  "calculateSilhouette m clusters =
     (let n = length m
      in if n \<le> 1 then \<lparr> sil_avg = Fin 0, sil_samples = [] \<rparr>
         else (let samples = map (silhouette_sample m clusters) [0..<n];
                   avg = jdiv (fold (\<lambda>s acc. jadd acc (s_value s)) samples (Fin 0)) (Fin (real n))
               in \<lparr> sil_avg = avg, sil_samples = samples \<rparr>))"

section \<open>Choosing k\<close>

text \<open>\<^verbatim>\<open>wcss\<close> holds whatever \<^verbatim>\<open>res.inertia\<close> evaluates to.\<close>

record KMetric =
  m_k :: nat
  m_wcss :: jsval
  m_silhouette :: jsnum

text \<open>
  The \<^verbatim>\<open>for\<close> loop of \<^verbatim>\<open>getSuggestedK\<close>; its variables are the arguments.  The bound
  \<^verbatim>\<open>Math.min(10, matrix.length - 1)\<close> is \<open>-1\<close> for the empty matrix, hence an integer.
\<close>

function getSuggestedK_loop ::
  "'s libs \<Rightarrow> matrix \<Rightarrow> nat \<Rightarrow> 's \<Rightarrow> KMetric list \<Rightarrow> jsnum \<Rightarrow> nat
     \<Rightarrow> error + ((nat \<times> KMetric list) \<times> 's)" where
  "getSuggestedK_loop env m testK s metrics maxSilhouette bestK =
     (if int testK \<le> min 10 (int (length m) - 1)
      then (case kmeans env s m testK of
              Inl e \<Rightarrow> Inl e
            | Inr (res, s') \<Rightarrow>
               (let sil = sil_avg (calculateSilhouette m (km_clusters res));
                    metrics' = metrics @ [\<lparr> m_k = testK, m_wcss = JUndefined, m_silhouette = sil \<rparr>]
                in if jgt sil maxSilhouette
                   then getSuggestedK_loop env m (testK + 1) s' metrics' sil testK
                   else getSuggestedK_loop env m (testK + 1) s' metrics' maxSilhouette bestK))
      else Inr ((bestK, metrics), s))"
  by pat_completeness auto
termination
  by (relation "measure (\<lambda>(env, m, testK, s, metrics, maxSilhouette, bestK). 11 - testK)") auto

definition getSuggestedK :: "'s libs \<Rightarrow> 's \<Rightarrow> matrix \<Rightarrow> error + ((nat \<times> KMetric list) \<times> 's)" where
  "getSuggestedK env s m = getSuggestedK_loop env m 2 s [] NegInf 2"

section \<open>The clustering run\<close>

record pca_point =
  p_x :: "real option"
  p_y :: "real option"
  p_cluster :: "int option"
  p_isOutlier :: bool
  p_index :: nat

record scaled_stat =
  st_mean :: real
  st_variance :: real

text \<open>
  \<^verbatim>\<open>ClusterResult\<close> without its \<^verbatim>\<open>log\<close> text.  \<^verbatim>\<open>excludeOutliers\<close> holds whatever value the
  third argument had.
\<close>

record ClusterResult =
  cr_k :: nat
  cr_clusters :: "nat list"
  cr_centroids :: matrix
  cr_pcaData :: "pca_point list"
  cr_outlierIndices :: "nat list"
  cr_stats :: "nat \<rightharpoonup> (string \<rightharpoonup> real)"
  cr_scaledStats :: "nat \<rightharpoonup> (string \<rightharpoonup> scaled_stat)"
  cr_metrics :: "KMetric list"
  cr_silhouetteSamples :: "sil_sample list"
  cr_avgSilhouette :: jsnum
  cr_selectedCols :: "string list"
  cr_excludeOutliers :: jsval

text \<open>Step 1: the feature matrix and its standardisation.\<close>

definition featureMatrix :: "(string \<Rightarrow> real) \<Rightarrow> DataRow list \<Rightarrow> string list \<Rightarrow> matrix" where
  "featureMatrix nos data selectedCols = map (\<lambda>d. map (\<lambda>col. coerce nos d col) selectedCols) data"

definition column :: "matrix \<Rightarrow> nat \<Rightarrow> real list" where
  "column m i = map (\<lambda>row. row ! i) m"

definition fit_means :: "matrix \<Rightarrow> nat \<Rightarrow> error + real list" where
  "fit_means m ncols = mapM_res (\<lambda>i. ss_mean (column m i)) [0..<ncols]"

text \<open>
  \<^verbatim>\<open>ss.standardDeviation(...) || 1\<close>: the guard replaces a deviation that is 0.  The model
  computes the deviation exactly, so there it is 0 for every column whose values are all
  equal.  The floating-point computation need not return 0 for such a column: the rounded
  mean of \<open>0.1, 0.1, 0.1\<close> is not \<open>0.1\<close>, the deviation comes out as a tiny positive number
  and the guard does not replace it.  No statement below is about what the guard does to
  constant columns in general; the constant columns of the concrete inputs hold a small
  integer, whose sums and means are exact.
\<close>

definition fit_stds :: "matrix \<Rightarrow> nat \<Rightarrow> error + real list" where
  "fit_stds m ncols =
     mapM_res (\<lambda>i. case ss_standardDeviation (column m i) of
                      Inl e \<Rightarrow> Inl e
                    | Inr sd \<Rightarrow> Inr (if sd = 0 then 1 else sd)) [0..<ncols]"

definition scale_matrix :: "matrix \<Rightarrow> real list \<Rightarrow> real list \<Rightarrow> matrix" where
  "scale_matrix m means stds =
     map (\<lambda>row. map (\<lambda>i. (row ! i - means ! i) / stds ! i) [0..<length row]) m"

text \<open>The whole of step 1, from the rows to the scaled matrix.\<close>

definition standardize :: "(string \<Rightarrow> real) \<Rightarrow> DataRow list \<Rightarrow> string list \<Rightarrow> error + matrix" where
  "standardize nos data selectedCols =
     (let fullMatrix = featureMatrix nos data selectedCols
      in case fit_means fullMatrix (length selectedCols) of
           Inl e \<Rightarrow> Inl e
         | Inr fullMeans \<Rightarrow>
            (case fit_stds fullMatrix (length selectedCols) of
               Inl e \<Rightarrow> Inl e
             | Inr fullStds \<Rightarrow> Inr (scale_matrix fullMatrix fullMeans fullStds)))"

text \<open>Step 6: the view of all rows.\<close>

definition pcaData_of :: "matrix \<Rightarrow> nat list \<Rightarrow> nat list \<Rightarrow> nat list \<Rightarrow> pca_point list" where
  "pcaData_of fullProjected outlierIndices mappingIndices clusters =
     map (\<lambda>(i, p).
            \<lparr> p_x = nth_opt p 0,
              p_y = nth_opt p 1,
              p_cluster = (case indexOf mappingIndices i of
                             Some finalIdx \<Rightarrow> map_option int (nth_opt clusters finalIdx)
                           | None \<Rightarrow> Some (- 1)),
              p_isOutlier = (i \<in> set outlierIndices),
              p_index = i \<rparr>)
         (zip [0..<length fullProjected] fullProjected)"

text \<open>
  Step 7: the statistics of one cluster for one column, then the two loops.  The objects
  \<^verbatim>\<open>stats[i]\<close> and \<^verbatim>\<open>scaledStats[i]\<close> are maps from column names; the names are taken to be
  ordinary keys here (the key \<^verbatim>\<open>__proto__\<close> is modelled for the correlation matrix only).
\<close>

definition raw_stat :: "(string \<Rightarrow> real) \<Rightarrow> DataRow list \<Rightarrow> string \<Rightarrow> error + real" where
  "raw_stat nos clusterPointsRaw col =
     (if 0 < length clusterPointsRaw
      then ss_mean (map (\<lambda>d. coerce nos d col) clusterPointsRaw)
      else Inr 0)"

definition scaled_entry :: "real list \<Rightarrow> error + scaled_stat" where
  "scaled_entry colValuesScaled =
     (if 0 < length colValuesScaled
      then (case ss_mean colValuesScaled of
              Inl e \<Rightarrow> Inl e
            | Inr mu \<Rightarrow>
               (case (if 1 < length colValuesScaled then ss_variance colValuesScaled else Inr 0) of
                  Inl e \<Rightarrow> Inl e
                | Inr var \<Rightarrow> Inr \<lparr> st_mean = mu, st_variance = var \<rparr>))
      else Inr \<lparr> st_mean = 0, st_variance = 0 \<rparr>)"

fun stats_cols_loop ::
  "(string \<Rightarrow> real) \<Rightarrow> DataRow list \<Rightarrow> matrix \<Rightarrow> (string \<times> nat) list
     \<Rightarrow> (string \<rightharpoonup> real) \<times> (string \<rightharpoonup> scaled_stat)
     \<Rightarrow> error + ((string \<rightharpoonup> real) \<times> (string \<rightharpoonup> scaled_stat))" where
  "stats_cols_loop nos raw scaled [] acc = Inr acc"
| "stats_cols_loop nos raw scaled ((col, colIdx) # rest) (st, sc) =
     (case raw_stat nos raw col of
        Inl e \<Rightarrow> Inl e
      | Inr rawMean \<Rightarrow>
         (case scaled_entry (map (\<lambda>row. row ! colIdx) scaled) of
            Inl e \<Rightarrow> Inl e
          | Inr entry \<Rightarrow>
              stats_cols_loop nos raw scaled rest (st(col \<mapsto> rawMean), sc(col \<mapsto> entry))))"

fun stats_loop ::
  "(string \<Rightarrow> real) \<Rightarrow> DataRow list \<Rightarrow> matrix \<Rightarrow> nat list \<Rightarrow> string list \<Rightarrow> nat list
     \<Rightarrow> (nat \<rightharpoonup> (string \<rightharpoonup> real)) \<times> (nat \<rightharpoonup> (string \<rightharpoonup> scaled_stat))
     \<Rightarrow> error + ((nat \<rightharpoonup> (string \<rightharpoonup> real)) \<times> (nat \<rightharpoonup> (string \<rightharpoonup> scaled_stat)))" where
  "stats_loop nos finalData finalMatrix clusters selectedCols [] acc = Inr acc"
| "stats_loop nos finalData finalMatrix clusters selectedCols (i # rest) (stats, scaledStats) =
     (let clusterPointsRaw = filter_idx (\<lambda>idx. nth_opt clusters idx = Some i) finalData;
          clusterPointsScaled = filter_idx (\<lambda>idx. nth_opt clusters idx = Some i) finalMatrix
      in case stats_cols_loop nos clusterPointsRaw clusterPointsScaled
                (zip selectedCols [0..<length selectedCols]) (Map.empty, Map.empty) of
           Inl e \<Rightarrow> Inl e
         | Inr (st, sc) \<Rightarrow>
             stats_loop nos finalData finalMatrix clusters selectedCols rest
               (stats(i \<mapsto> st), scaledStats(i \<mapsto> sc)))"

text \<open>
  \<^verbatim>\<open>performClustering(data, selectedCols, excludeOutliers = false)\<close>: three parameters.
  The default value replaces \<^verbatim>\<open>undefined\<close> only.
\<close>

definition default_false :: "jsval \<Rightarrow> jsval" where
  "default_false v = (case v of JUndefined \<Rightarrow> JBool False | _ \<Rightarrow> v)"

text \<open>
  Step 3: \<^verbatim>\<open>if (excludeOutliers)\<close> tests the value for truthiness; the three variables
  it assigns are the kept indices and the kept rows of the scaled matrix and of the data.
\<close>

definition kept_indices :: "jsval \<Rightarrow> nat list \<Rightarrow> nat \<Rightarrow> nat list" where
  "kept_indices excludeOutliers outlierIndices n =
     (if truthy excludeOutliers
      then filter (\<lambda>i. i \<notin> set outlierIndices) [0..<n]
      else [0..<n])"

definition kept_rows :: "jsval \<Rightarrow> nat list \<Rightarrow> 'a list \<Rightarrow> 'a list" where
  "kept_rows excludeOutliers outlierIndices xs =
     (if truthy excludeOutliers
      then filter_idx (\<lambda>i. i \<notin> set outlierIndices) xs
      else xs)"

definition performClustering ::
  "'s libs \<Rightarrow> 's \<Rightarrow> DataRow list \<Rightarrow> string list \<Rightarrow> jsval \<Rightarrow> error + (ClusterResult \<times> 's)" where
  "performClustering env s data selectedCols arg3 =
     (let excludeOutliers = default_false arg3;
          nos = number_of_string env
      in case standardize nos data selectedCols of
           Inl e \<Rightarrow> Inl e
         | Inr fullScaledMatrix \<Rightarrow>
      (case detectOutliers env fullScaledMatrix of
           Inl e \<Rightarrow> Inl e
         | Inr outlierIndices \<Rightarrow>
      (let mappingIndices = kept_indices excludeOutliers outlierIndices (length data);
           finalMatrix = kept_rows excludeOutliers outlierIndices fullScaledMatrix;
           finalData = kept_rows excludeOutliers outlierIndices data
       in case getSuggestedK env s finalMatrix of
            Inl e \<Rightarrow> Inl e
          | Inr ((bestK, metrics), s1) \<Rightarrow>
      (case kmeans env s1 finalMatrix bestK of
            Inl e \<Rightarrow> Inl e
          | Inr (ans, s2) \<Rightarrow>
      (case pca_predict env fullScaledMatrix of
            Inl e \<Rightarrow> Inl e
          | Inr fullProjected \<Rightarrow>
      (case stats_loop nos finalData finalMatrix (km_clusters ans) selectedCols [0..<bestK]
              (Map.empty, Map.empty) of
            Inl e \<Rightarrow> Inl e
          | Inr (stats, scaledStats) \<Rightarrow>
              Inr (\<lparr> cr_k = bestK,
                     cr_clusters = km_clusters ans,
                     cr_centroids = km_centroids ans,
                     cr_pcaData = pcaData_of fullProjected outlierIndices mappingIndices (km_clusters ans),
                     cr_outlierIndices = outlierIndices,
                     cr_stats = stats,
                     cr_scaledStats = scaledStats,
                     cr_metrics = metrics,
                     cr_silhouetteSamples = sil_samples (calculateSilhouette finalMatrix (km_clusters ans)),
                     cr_avgSilhouette = sil_avg (calculateSilhouette finalMatrix (km_clusters ans)),
                     cr_selectedCols = selectedCols,
                     cr_excludeOutliers = excludeOutliers \<rparr>, s2)))))))"

section \<open>The callers in App.tsx\<close>

text \<open>
  Both callers pass four arguments: \<^verbatim>\<open>performClustering(data, selectedCols, k, mode)\<close>.
  A JavaScript call binds arguments to parameters by position and drops the rest, so the
  number \<open>k\<close> is bound to \<^verbatim>\<open>excludeOutliers\<close> and the fourth argument is not read.
\<close>

definition performClustering_call4 ::
  "'s libs \<Rightarrow> 's \<Rightarrow> DataRow list \<Rightarrow> string list \<Rightarrow> jsval \<Rightarrow> jsval \<Rightarrow> error + (ClusterResult \<times> 's)" where
  "performClustering_call4 env s data selectedCols arg3 arg4 =
     performClustering env s data selectedCols arg3"

text \<open>
  \<^verbatim>\<open>switchClusterMode(mode)\<close>: nothing happens without a previous result; otherwise the
  new result replaces the old one.
\<close>

definition switchClusterMode ::
  "'s libs \<Rightarrow> 's \<Rightarrow> ClusterResult option \<Rightarrow> DataRow list \<Rightarrow> string list \<Rightarrow> bool
     \<Rightarrow> (error + (ClusterResult \<times> 's)) option" where
  "switchClusterMode env s clusterResult data selectedCols mode =
     (case clusterResult of
        None \<Rightarrow> None
      | Some cr \<Rightarrow>
          Some (performClustering_call4 env s data selectedCols
                  (JNumber (Fin (real (cr_k cr)))) (JBool mode)))"

section \<open>Stand-ins for the libraries\<close>

text \<open>
  Concrete evaluations need concrete library functions.  The stand-in for k-means
  refuses a \<open>k\<close> that is 0 or larger than the number of rows, as the package does,
  labels row \<open>i\<close> with \<open>i mod k\<close> and has no random state; the stand-in for the projection
  returns the rows unchanged, with all their coordinates.
\<close>

definition stub_kmeans :: "unit \<Rightarrow> matrix \<Rightarrow> nat \<Rightarrow> error + (kmeans_result \<times> unit)" where
  "stub_kmeans s m k =
     (if k = 0 \<or> length m < k
      then Inl (Error ''K should be a positive integer smaller than the number of points'')
      else Inr (\<lparr> km_clusters = map (\<lambda>i. i mod k) [0..<length m], km_centroids = [] \<rparr>, s))"

definition stub_pca :: "matrix \<Rightarrow> error + matrix" where
  "stub_pca m = Inr m"

definition stub_libs :: "unit libs" where
  "stub_libs = \<lparr> number_of_string = no_numeric_strings, kmeans = stub_kmeans, pca_predict = stub_pca \<rparr>"

section \<open>Inputs of the concrete evaluations\<close>

text \<open>
  Ten rows with one numeric column \<open>a\<close>: nine times 0 and once 10.  \<open>S10\<close> is their
  standardised matrix (mean 1, deviation 3).
\<close>

definition data10 :: "DataRow list" where
  "data10 = replicate 9 (row_ab 0 1) @ [row_ab 10 1]"

definition S10 :: matrix where
  "S10 = replicate 9 [- 1 / 3] @ [[3]]"

text \<open>
  Three rows, and the two calls of the user interface on them: the button that asks for
  \<open>K\<close> (answered with 5) and calls \<^verbatim>\<open>performClustering(data, selectedCols, 5, false)\<close>, then
  \<^verbatim>\<open>switchClusterMode(false)\<close> on the result of that call.
\<close>

definition data3 :: "DataRow list" where
  "data3 = [row_ab 1 2, row_ab 2 4, row_ab 4 3]"

definition first_run :: "error + (ClusterResult \<times> unit)" where
  "first_run = performClustering_call4 stub_libs () data3 [''a'', ''b''] (JNumber (Fin 5)) (JBool False)"

definition second_run :: "(error + (ClusterResult \<times> unit)) option" where
  "second_run = switchClusterMode stub_libs () (Some (fst (projr first_run))) data3 [''a'', ''b''] False"

section \<open>Reference notions\<close>

text \<open>
  The statistics the statements below are written with: the mean and the population
  variance (divisor \<open>n\<close>) of a list of numbers, and the numeric values of one column.
\<close>

definition population_mean :: "real list \<Rightarrow> real" where
  "population_mean xs = sum_list xs / real (length xs)"

definition population_variance :: "real list \<Rightarrow> real" where
  "population_variance xs = sum_list (map (\<lambda>v. (v - population_mean xs)\<^sup>2) xs) / real (length xs)"

text \<open>The divisor of the standardisation: the deviation, or 1 in its place.\<close>

definition std_or_1 :: "real list \<Rightarrow> real" where
  "std_or_1 xs = (if sqrt (population_variance xs) = 0 then 1 else sqrt (population_variance xs))"

definition raw_column :: "(string \<Rightarrow> real) \<Rightarrow> DataRow list \<Rightarrow> string \<Rightarrow> real list" where
  "raw_column nos data col = map (\<lambda>d. coerce nos d col) data"

text \<open>The statistics of the values of one cluster in one column; zeros for no values.\<close>

definition population_stat :: "real list \<Rightarrow> scaled_stat" where
  "population_stat vals =
     (if vals = [] then \<lparr> st_mean = 0, st_variance = 0 \<rparr>
      else \<lparr> st_mean = population_mean vals, st_variance = population_variance vals \<rparr>)"

text \<open>What the two loops of step 7 build for cluster \<open>i\<close>: one entry for every column.\<close>

definition raw_mean_or_0 :: "(string \<Rightarrow> real) \<Rightarrow> DataRow list \<Rightarrow> string \<Rightarrow> real" where
  "raw_mean_or_0 nos raw col = (if raw = [] then 0 else population_mean (raw_column nos raw col))"

definition cluster_raw_stats ::
  "(string \<Rightarrow> real) \<Rightarrow> DataRow list \<Rightarrow> nat list \<Rightarrow> string list \<Rightarrow> nat \<Rightarrow> (string \<rightharpoonup> real)" where
  "cluster_raw_stats nos finalData clusters cols i =
     fold (\<lambda>(col, j) m. m(col \<mapsto> raw_mean_or_0 nos (filter_idx (\<lambda>idx. nth_opt clusters idx = Some i) finalData) col))
       (zip cols [0..<length cols]) Map.empty"

definition cluster_scaled_stats ::
  "matrix \<Rightarrow> nat list \<Rightarrow> string list \<Rightarrow> nat \<Rightarrow> (string \<rightharpoonup> scaled_stat)" where
  "cluster_scaled_stats finalMatrix clusters cols i =
     fold (\<lambda>(col, j) m. m(col \<mapsto> population_stat
              (map (\<lambda>row. row ! j) (filter_idx (\<lambda>idx. nth_opt clusters idx = Some i) finalMatrix))))
       (zip cols [0..<length cols]) Map.empty"

text \<open>The values the running minimum \<^verbatim>\<open>bi\<close> of the silhouette can take.\<close>

definition nonneg_or_inf :: "jsnum \<Rightarrow> bool" where
  "nonneg_or_inf b = (case b of Fin r \<Rightarrow> 0 \<le> r | PosInf \<Rightarrow> True | NegInf \<Rightarrow> False | NaN \<Rightarrow> False)"

text \<open>The last candidate of the sweep, \<^verbatim>\<open>Math.min(10, matrix.length - 1)\<close>.\<close>

definition sweep_bound :: "matrix \<Rightarrow> int" where
  "sweep_bound m = min 10 (int (length m) - 1)"

text \<open>
  A metric that records one k-means run on \<open>m\<close> at its \<open>k\<close>: \<^verbatim>\<open>undefined\<close> as \<^verbatim>\<open>wcss\<close> and the
  mean silhouette of the labels of the run.
\<close>

definition metric_of_run :: "'s libs \<Rightarrow> matrix \<Rightarrow> KMetric \<Rightarrow> bool" where
  "metric_of_run env m x =
     (\<exists>s0 res s1. kmeans env s0 m (m_k x) = Inr (res, s1)
        \<and> m_wcss x = JUndefined
        \<and> m_silhouette x = sil_avg (calculateSilhouette m (km_clusters res)))"

text \<open>
  The state of the sweep before candidate \<open>testK\<close>: one metric for every earlier
  candidate, and the best candidate so far is the first one with the largest silhouette.
\<close>

definition sweep_inv :: "'s libs \<Rightarrow> matrix \<Rightarrow> nat \<Rightarrow> KMetric list \<Rightarrow> jsnum \<Rightarrow> nat \<Rightarrow> bool" where
  "sweep_inv env m testK metrics maxSilhouette bestK =
     (map m_k metrics = [2..<testK]
      \<and> (\<forall>x \<in> set metrics. metric_of_run env m x)
      \<and> (if metrics = [] then maxSilhouette = NegInf \<and> bestK = 2
         else \<exists>b vb. b \<in> set metrics \<and> m_k b = bestK \<and> maxSilhouette = Fin vb
                \<and> m_silhouette b = Fin vb
                \<and> (\<forall>y \<in> set metrics. \<exists>vy. m_silhouette y = Fin vy \<and> vy \<le> vb
                                          \<and> (m_k y < bestK \<longrightarrow> vy < vb))))"

text \<open>
  The distances from point \<open>i\<close> to the points of a projection, its own position left out,
  and the score of every point: the mean of the (at most) five smallest of them.
\<close>

definition nonself_dists :: "matrix \<Rightarrow> nat \<Rightarrow> real list" where
  "nonself_dists proj i =
     (let ds = map (euclideanDistance (proj ! i)) proj in take i ds @ drop (Suc i) ds)"

definition knn_scores :: "matrix \<Rightarrow> real list" where
  "knn_scores proj =
     map (\<lambda>i. population_mean (take 5 (sort (nonself_dists proj i)))) [0..<length proj]"

text \<open>
  Nine points with three coordinates: two at every corner of a rectangle in the plane of
  the first two coordinates, and one above its centre.  The coordinates are uncorrelated
  and their variances fall from the first to the third, so the principal components of
  this matrix are its coordinate axes.
\<close>

definition M9 :: matrix where
  "M9 = [[12, 9, 0], [12, 9, 0], [12, - 9, 0], [12, - 9, 0],
         [- 12, 9, 0], [- 12, 9, 0], [- 12, - 9, 0], [- 12, - 9, 0], [0, 0, 8]]"

text \<open>Reading \<^verbatim>\<open>m[a][b]\<close> from a record of records.\<close>

definition lookup2 :: "('a \<rightharpoonup> ('b \<rightharpoonup> 'c)) \<Rightarrow> 'a \<Rightarrow> 'b \<Rightarrow> 'c option" where
  "lookup2 m a b = (case m a of None \<Rightarrow> None | Some row \<Rightarrow> row b)"

section \<open>Facts about correlation\<close>

lemma fold_upd_lookup:
  "(fold (\<lambda>c m. m(c \<mapsto> f c)) cs m0) a = (if a \<in> set cs then Some (f a) else m0 a)"
  by (induction cs arbitrary: m0) auto

lemma fold_upd_except_lookup:
  "(fold (\<lambda>c m. if c = k then m else m(c \<mapsto> f c)) cs m0) a =
     (if a \<in> set cs \<and> a \<noteq> k then Some (f a) else m0 a)"
  by (induction cs arbitrary: m0) auto

lemma fold_assign_row_fst:
  "fst (fold (\<lambda>c. assign_row c (f c)) cs obj) a =
     (if a \<in> set cs \<and> a \<noteq> ''__proto__'' then Some (f a) else fst obj a)"
  by (induction cs arbitrary: obj) (auto simp: assign_row_def)

lemma fold_assign_row_snd:
  "snd (fold (\<lambda>c. assign_row c (f c)) cs obj) =
     (if ''__proto__'' \<in> set cs then Some (f ''__proto__'') else snd obj)"
  by (induction cs arbitrary: obj) (auto simp: assign_row_def)

lemma pr_matrix_lookup:
  "pr_matrix (calculatePearson nos data cols f) a =
     (if a \<in> set cols \<and> a \<noteq> ''__proto__'' then Some (pearson_row nos data cols a) else None)"
  by (simp add: calculatePearson_def Let_def fold_assign_row_fst)

lemma pearson_row_lookup:
  "pearson_row nos data cols a b =
     (if b \<in> set cols \<and> b \<noteq> ''__proto__'' then Some (pearson_entry nos data a b) else None)"
  by (simp add: pearson_row_def fold_upd_except_lookup)

lemma calculatePearson_lookup:
  assumes "a \<in> set cols" and "b \<in> set cols" and "a \<noteq> ''__proto__''" and "b \<noteq> ''__proto__''"
  shows "\<exists>row. pr_matrix (calculatePearson nos data cols f) a = Some row
            \<and> row b = Some (pearson_entry nos data a b)"
  using assms by (simp add: pr_matrix_lookup pearson_row_lookup)

lemma sampleCorrelation_short:
  "length x < 2 \<Longrightarrow> isl (ss_sampleCorrelation x y)"
  by (simp add: ss_sampleCorrelation_def ss_sampleCovariance_def)

lemma map_const_replicate:
  "(\<forall>d \<in> set xs. f d = c) \<Longrightarrow> map f xs = replicate (length xs) c"
  by (induction xs) auto

lemma ss_mean_Inr: "xs \<noteq> [] \<Longrightarrow> ss_mean xs = Inr (sum_list xs / real (length xs))"
  by (simp add: ss_mean_def)

lemma ss_mean_replicate: "0 < n \<Longrightarrow> ss_mean (replicate n c) = Inr (c::real)"
  by (simp add: ss_mean_def sum_list_replicate)

lemma sampleStd_replicate:
  "2 \<le> n \<Longrightarrow> ss_sampleStandardDeviation (replicate n c) = Inr 0"
  by (simp add: ss_sampleStandardDeviation_def ss_sampleVariance_def sumNthPowerDeviations2_def
      ss_mean_replicate sum_list_replicate)

lemma sampleStd_Inr:
  "2 \<le> length y \<Longrightarrow> \<exists>sd. ss_sampleStandardDeviation y = Inr sd"
  by (auto simp add: ss_sampleStandardDeviation_def ss_sampleVariance_def sumNthPowerDeviations2_def
      ss_mean_def)

lemma sum_list_zero: "(\<forall>x \<in> set xs. f x = (0::real)) \<Longrightarrow> sum_list (map f xs) = 0"
  by (induction xs) auto

lemma sampleCov_replicate_left:
  "2 \<le> n \<Longrightarrow> length y = n \<Longrightarrow> ss_sampleCovariance (replicate n c) y = Inr 0"
proof -
  assume n: "2 \<le> n" "length y = n"
  have z: "(\<Sum>i\<leftarrow>[0..<n]. (replicate n c ! i - c) * (y ! i - m)) = 0" for m
    by (rule sum_list_zero) simp
  have my: "ss_mean y = Inr (sum_list y / real n)"
    using n by (auto simp: ss_mean_def)
  have mc: "ss_mean (replicate n c) = Inr c"
    using n by (simp add: ss_mean_replicate)
  show ?thesis
    unfolding ss_sampleCovariance_def using n by (simp add: my mc z)
qed

lemma sampleCov_replicate_right:
  "2 \<le> n \<Longrightarrow> length y = n \<Longrightarrow> ss_sampleCovariance y (replicate n c) = Inr 0"
proof -
  assume n: "2 \<le> n" "length y = n"
  have z: "(\<Sum>i\<leftarrow>[0..<n]. (y ! i - m) * (replicate n c ! i - c)) = 0" for m
    by (rule sum_list_zero) simp
  have my: "ss_mean y = Inr (sum_list y / real n)"
    using n by (auto simp: ss_mean_def)
  have mc: "ss_mean (replicate n c) = Inr c"
    using n by (simp add: ss_mean_replicate)
  show ?thesis
    unfolding ss_sampleCovariance_def using n by (simp add: my mc z)
qed

lemma sampleCorrelation_constant_left:
  assumes "2 \<le> n" and "length y = n"
  shows "ss_sampleCorrelation (replicate n c) y = Inr NaN"
proof -
  obtain sd where "ss_sampleStandardDeviation y = Inr sd"
    using sampleStd_Inr assms by blast
  then show ?thesis
    using assms by (simp add: ss_sampleCorrelation_def sampleCov_replicate_left sampleStd_replicate)
qed

lemma sampleCorrelation_constant_right:
  assumes "2 \<le> n" and "length y = n"
  shows "ss_sampleCorrelation y (replicate n c) = Inr NaN"
proof -
  obtain sd where "ss_sampleStandardDeviation y = Inr sd"
    using sampleStd_Inr assms by blast
  then show ?thesis
    using assms by (simp add: ss_sampleCorrelation_def sampleCov_replicate_right sampleStd_replicate)
qed

text \<open>
  C3 (the code differs).  A selected column whose values are all equal, over at least two
  rows: \<^verbatim>\<open>ss.sampleCorrelation\<close> does not throw there, it divides zero by zero, so the
  \<^verbatim>\<open>catch\<close> with its fallback is not reached.  Every entry of the column's row and of its
  column in the matrix is \<^verbatim>\<open>NaN\<close>, the diagonal entry too: neither 0 nor 1.  The two columns
  are any columns whose entries the matrix stores, that is, any but the key \<^verbatim>\<open>__proto__\<close>
  (see C10).
\<close>

theorem constant_column_correlation_NaN:
  assumes "2 \<le> length data"
    and "\<forall>d \<in> set data. coerce nos d a = c"
    and "a \<in> set selectedCols" and "b \<in> set selectedCols"
    and "a \<noteq> ''__proto__''" and "b \<noteq> ''__proto__''"
  shows "\<exists>rowa rowb. pr_matrix (calculatePearson nos data selectedCols fileName) a = Some rowa
           \<and> pr_matrix (calculatePearson nos data selectedCols fileName) b = Some rowb
           \<and> rowa b = Some NaN \<and> rowb a = Some NaN \<and> rowa a = Some NaN"
proof -
  have c: "map (\<lambda>d. coerce nos d a) data = replicate (length data) c"
    using assms(2) by (rule map_const_replicate)
  have ab: "pearson_entry nos data a x = NaN" for x
    using assms(1) by (simp add: pearson_entry_def c sampleCorrelation_constant_left)
  have ba: "pearson_entry nos data x a = NaN" for x
    using assms(1) by (simp add: pearson_entry_def c sampleCorrelation_constant_right)
  from calculatePearson_lookup[OF assms(3) assms(4) assms(5) assms(6), of nos data fileName]
       calculatePearson_lookup[OF assms(4) assms(3) assms(6) assms(5), of nos data fileName]
       calculatePearson_lookup[OF assms(3) assms(3) assms(5) assms(5), of nos data fileName]
  show ?thesis by (auto simp: ab ba)
qed

theorem constant_column_correlation_NaN_witness:
  "2 \<le> length [row_ab 1 1, row_ab 1 2]
   \<and> coerce no_numeric_strings (row_ab 1 1) ''a'' = 1
   \<and> coerce no_numeric_strings (row_ab 1 2) ''a'' = 1
   \<and> ''a'' \<noteq> ''__proto__'' \<and> ''b'' \<noteq> ''__proto__''
   \<and> (\<exists>rowa rowb.
        pr_matrix (calculatePearson no_numeric_strings [row_ab 1 1, row_ab 1 2] [''a'', ''b''] ''oil.xlsx'') ''a'' = Some rowa
      \<and> pr_matrix (calculatePearson no_numeric_strings [row_ab 1 1, row_ab 1 2] [''a'', ''b''] ''oil.xlsx'') ''b'' = Some rowb
      \<and> rowa ''b'' = Some NaN \<and> rowb ''a'' = Some NaN \<and> rowa ''a'' = Some NaN)"
  using constant_column_correlation_NaN [of "[row_ab 1 1, row_ab 1 2]" no_numeric_strings "''a''" 1
      "[''a'', ''b'']" "''b''" "''oil.xlsx''"]
  by (simp add: coerce_def row_ab_def)

text \<open>
  What holds of the columns other than \<^verbatim>\<open>__proto__\<close>.  \<^verbatim>\<open>calculatePearson\<close> returns for every
  row list (the empty one and a single row included) and every column list: the only call
  that throws stands inside the \<^verbatim>\<open>try\<close>.  The matrix has a row for exactly these columns,
  every row has an entry for exactly these columns, and the entry is the library's value
  when the library returns and the fallback (1 on the diagonal, 0 off it) when it throws,
  which it does whenever there are fewer than two rows.
\<close>

lemma calculatePearson_dense_ordinary:
  assumes "a \<in> set selectedCols" and "b \<in> set selectedCols"
    and "a \<noteq> ''__proto__''" and "b \<noteq> ''__proto__''"
  shows "dom (pr_matrix (calculatePearson nos data selectedCols fileName))
           = set selectedCols - {''__proto__''}
     \<and> pr_columns (calculatePearson nos data selectedCols fileName) = selectedCols
     \<and> (\<exists>row v. pr_matrix (calculatePearson nos data selectedCols fileName) a = Some row
          \<and> dom row = set selectedCols - {''__proto__''}
          \<and> row b = Some v
          \<and> (case ss_sampleCorrelation (map (\<lambda>d. coerce nos d a) data) (map (\<lambda>d. coerce nos d b) data) of
                Inl e \<Rightarrow> v = (if a = b then Fin 1 else Fin 0)
              | Inr r \<Rightarrow> v = r)
          \<and> (length data < 2 \<longrightarrow> v = (if a = b then Fin 1 else Fin 0)))"
proof -
  let ?x = "map (\<lambda>d. coerce nos d a) data" and ?y = "map (\<lambda>d. coerce nos d b) data"
  have short: "length data < 2 \<Longrightarrow> pearson_entry nos data a b = (if a = b then Fin 1 else Fin 0)"
    using sampleCorrelation_short[of ?x ?y]
    by (cases "ss_sampleCorrelation ?x ?y") (simp_all add: pearson_entry_def)
  have d1: "dom (pr_matrix (calculatePearson nos data selectedCols fileName))
              = set selectedCols - {''__proto__''}"
    by (auto simp: pr_matrix_lookup dom_def)
  have d2: "dom (pearson_row nos data selectedCols a) = set selectedCols - {''__proto__''}"
    by (auto simp: pearson_row_lookup dom_def)
  have row: "pr_matrix (calculatePearson nos data selectedCols fileName) a
               = Some (pearson_row nos data selectedCols a)"
    using assms(1,3) by (simp add: pr_matrix_lookup)
  have ent: "pearson_row nos data selectedCols a b = Some (pearson_entry nos data a b)"
    using assms(2,4) by (simp add: pearson_row_lookup)
  have cs: "(case ss_sampleCorrelation ?x ?y of
                Inl e \<Rightarrow> pearson_entry nos data a b = (if a = b then Fin 1 else Fin 0)
              | Inr r \<Rightarrow> pearson_entry nos data a b = r)"
    by (simp add: pearson_entry_def split: sum.splits)
  have cols: "pr_columns (calculatePearson nos data selectedCols fileName) = selectedCols"
    by (simp add: calculatePearson_def Let_def)
  show ?thesis
    using d1 d2 row ent cs short cols by simp
qed

text \<open>
  C10 (the code differs).  \<^verbatim>\<open>calculatePearson\<close> returns for every input, but its matrix is
  not dense for every column list.  Whatever the rows and the selected columns, the
  matrix has no row for the column \<^verbatim>\<open>__proto__\<close> and no row of it has an entry for that
  column, also when the column is selected: the pairs \<open>(a, __proto__)\<close> and
  \<open>(__proto__, b)\<close> have no entry.  For the column list \<^verbatim>\<open>['__proto__']\<close> the matrix is
  empty, and the row that was built has become its prototype.
\<close>

theorem calculatePearson_proto_key_not_stored:
  "dom (pr_matrix (calculatePearson nos data selectedCols fileName))
     = set selectedCols - {''__proto__''}
   \<and> lookup2 (pr_matrix (calculatePearson nos data selectedCols fileName)) a ''__proto__'' = None
   \<and> lookup2 (pr_matrix (calculatePearson nos data selectedCols fileName)) ''__proto__'' b = None
   \<and> pr_matrix (calculatePearson nos data [''__proto__''] fileName) = Map.empty
   \<and> pr_proto (calculatePearson nos data [''__proto__''] fileName) = Some Map.empty
   \<and> lookup2 (pr_matrix (calculatePearson nos data [''a'', ''__proto__''] fileName))
        ''a'' ''__proto__'' = None"
proof -
  have d: "dom (pr_matrix (calculatePearson nos data selectedCols fileName))
             = set selectedCols - {''__proto__''}"
    by (auto simp: pr_matrix_lookup dom_def)
  have l: "lookup2 (pr_matrix (calculatePearson nos data cols fileName)) x ''__proto__'' = None"
    for cols x
    by (simp add: lookup2_def pr_matrix_lookup pearson_row_lookup)
  have r: "lookup2 (pr_matrix (calculatePearson nos data selectedCols fileName)) ''__proto__'' b = None"
    by (simp add: lookup2_def pr_matrix_lookup)
  have e: "pr_matrix (calculatePearson nos data [''__proto__''] fileName) = Map.empty"
    by (rule ext) (simp add: pr_matrix_lookup)
  have p: "pr_proto (calculatePearson nos data [''__proto__''] fileName) = Some Map.empty"
    by (simp add: calculatePearson_def Let_def assign_row_def pearson_row_def)
  show ?thesis
    using d l r e p by simp
qed

text \<open>
  What does hold of the matrix: its entries are symmetric, and the diagonal entry of a
  column that takes two different values is 1.
\<close>

lemma sum_list_squares_zero:
  "sum_list (map (\<lambda>v. (v - m) * (v - m)) xs) = (0::real) \<Longrightarrow> \<forall>v \<in> set xs. v = m"
proof (induction xs)
  case Nil
  then show ?case by simp
next
  case (Cons x xs)
  have a: "0 \<le> (x - m) * (x - m)"
    by simp
  have b: "0 \<le> sum_list (map (\<lambda>v. (v - m) * (v - m)) xs)"
    by (rule sum_list_nonneg) auto
  from Cons.prems a b have "(x - m) * (x - m) = 0" "sum_list (map (\<lambda>v. (v - m) * (v - m)) xs) = 0"
    by (simp_all add: add_nonneg_eq_0_iff)
  with Cons.IH show ?case
    by simp
qed

lemma sample_parts:
  assumes "2 \<le> length x" and "length y = length x"
  shows "ss_sampleCovariance x y
           = Inr (sum_list (map (\<lambda>i. (x ! i - population_mean x) * (y ! i - population_mean y)) [0..<length x])
                  / real (length x - 1))"
    and "ss_sampleStandardDeviation x
           = Inr (sqrt (sum_list (map (\<lambda>v. (v - population_mean x) * (v - population_mean x)) x)
                        / real (length x - 1)))"
  using assms
  by (auto simp: ss_sampleCovariance_def ss_sampleStandardDeviation_def ss_sampleVariance_def
      sumNthPowerDeviations2_def ss_mean_def population_mean_def)

lemma sample_sd_zero_cov_zero:
  assumes "2 \<le> length x" and "length y = length x"
    and "sqrt (sum_list (map (\<lambda>v. (v - population_mean x) * (v - population_mean x)) x)
               / real (length x - 1)) = 0"
  shows "sum_list (map (\<lambda>i. (x ! i - population_mean x) * (y ! i - m)) [0..<length x]) = 0"
proof -
  have "sum_list (map (\<lambda>v. (v - population_mean x) * (v - population_mean x)) x) = 0"
    using assms(1,3) by simp
  then have "\<forall>v \<in> set x. v = population_mean x"
    by (rule sum_list_squares_zero)
  then show ?thesis
    by (intro sum_list_zero) simp
qed

lemma jdiv_swap:
  assumes "sx = 0 \<longrightarrow> c = 0" and "sy = 0 \<longrightarrow> c = 0"
  shows "jdiv (jdiv (Fin c) (Fin sx)) (Fin sy) = jdiv (jdiv (Fin c) (Fin sy)) (Fin sx)"
proof (cases "sx = 0")
  case True
  with assms show ?thesis
    by (cases "sy = 0") simp_all
next
  case False
  with assms show ?thesis
    by (cases "sy = 0") simp_all
qed

lemma sampleCorrelation_symmetric:
  "ss_sampleCorrelation x y = ss_sampleCorrelation y x"
proof (cases "2 \<le> length x \<and> length y = length x")
  case False
  then show ?thesis
    by (auto simp: ss_sampleCorrelation_def ss_sampleCovariance_def)
next
  case True
  then have x: "2 \<le> length x" "length y = length x" and y: "2 \<le> length y" "length x = length y"
    by simp_all
  define c where
    "c = sum_list (map (\<lambda>i. (x ! i - population_mean x) * (y ! i - population_mean y)) [0..<length x])
           / real (length x - 1)"
  define sx where
    "sx = sqrt (sum_list (map (\<lambda>v. (v - population_mean x) * (v - population_mean x)) x) / real (length x - 1))"
  define sy where
    "sy = sqrt (sum_list (map (\<lambda>v. (v - population_mean y) * (v - population_mean y)) y) / real (length y - 1))"
  have cxy: "ss_sampleCovariance x y = Inr c"
    unfolding c_def by (rule sample_parts(1)[OF x])
  have swap: "sum_list (map (\<lambda>i. (y ! i - population_mean y) * (x ! i - population_mean x)) [0..<length y])
          = sum_list (map (\<lambda>i. (x ! i - population_mean x) * (y ! i - population_mean y)) [0..<length x])"
    using x(2) by (simp add: mult.commute)
  then have cyx: "ss_sampleCovariance y x = Inr c"
    unfolding c_def sample_parts(1)[OF y] using x(2) by simp
  have dx: "ss_sampleStandardDeviation x = Inr sx"
    unfolding sx_def by (rule sample_parts(2)[OF x])
  have dy: "ss_sampleStandardDeviation y = Inr sy"
    unfolding sy_def by (rule sample_parts(2)[OF y])
  have zx: "sx = 0 \<longrightarrow> c = 0"
  proof
    assume "sx = 0"
    then have "sum_list (map (\<lambda>i. (x ! i - population_mean x) * (y ! i - population_mean y)) [0..<length x]) = 0"
      unfolding sx_def by (rule sample_sd_zero_cov_zero[OF x])
    then show "c = 0"
      unfolding c_def by simp
  qed
  have zy: "sy = 0 \<longrightarrow> c = 0"
  proof
    assume "sy = 0"
    then have "sum_list (map (\<lambda>i. (y ! i - population_mean y) * (x ! i - population_mean x)) [0..<length y]) = 0"
      unfolding sy_def by (rule sample_sd_zero_cov_zero[OF y])
    then show "c = 0"
      unfolding c_def using swap by simp
  qed
  have "ss_sampleCorrelation x y = Inr (jdiv (jdiv (Fin c) (Fin sx)) (Fin sy))"
    by (simp only: ss_sampleCorrelation_def cxy dx dy sum.case)
  moreover have "ss_sampleCorrelation y x = Inr (jdiv (jdiv (Fin c) (Fin sy)) (Fin sx))"
    by (simp only: ss_sampleCorrelation_def cyx dx dy sum.case)
  ultimately show ?thesis
    using jdiv_swap[OF zx zy] by simp
qed

lemma pearson_entry_symmetric: "pearson_entry nos data a b = pearson_entry nos data b a"
proof -
  have "ss_sampleCorrelation (map (\<lambda>d. coerce nos d a) data) (map (\<lambda>d. coerce nos d b) data)
          = ss_sampleCorrelation (map (\<lambda>d. coerce nos d b) data) (map (\<lambda>d. coerce nos d a) data)"
    by (rule sampleCorrelation_symmetric)
  then show ?thesis
    unfolding pearson_entry_def Let_def by (simp add: eq_commute[of a b])
qed

lemma sum_list_index: "sum_list (map (\<lambda>i. f (xs ! i)) [0..<length xs]) = sum_list (map f xs)"
proof -
  have "map (\<lambda>i. f (xs ! i)) [0..<length xs] = map f xs"
    by (rule nth_equalityI) simp_all
  then show ?thesis
    by simp
qed

lemma pearson_diagonal_one:
  assumes "2 \<le> length data" and "\<exists>d \<in> set data. \<exists>d' \<in> set data. coerce nos d a \<noteq> coerce nos d' a"
  shows "pearson_entry nos data a a = Fin 1"
proof -
  define x where "x = map (\<lambda>d. coerce nos d a) data"
  define v where "v = sum_list (map (\<lambda>v. (v - population_mean x) * (v - population_mean x)) x)
                       / real (length x - 1)"
  have x: "2 \<le> length x" "length x = length x"
    using assms(1) by (simp_all add: x_def)
  have nz: "sum_list (map (\<lambda>v. (v - population_mean x) * (v - population_mean x)) x) \<noteq> 0"
  proof
    assume "sum_list (map (\<lambda>v. (v - population_mean x) * (v - population_mean x)) x) = 0"
    then have "\<forall>v \<in> set x. v = population_mean x"
      by (rule sum_list_squares_zero)
    with assms(2) show False
      by (auto simp: x_def)
  qed
  have "0 \<le> sum_list (map (\<lambda>v. (v - population_mean x) * (v - population_mean x)) x)"
    by (rule sum_list_nonneg) auto
  with nz have pos: "0 < v"
    unfolding v_def using x(1) by simp
  have c: "ss_sampleCovariance x x = Inr v"
    unfolding v_def sample_parts(1)[OF x]
    using sum_list_index[of "\<lambda>v. (v - population_mean x) * (v - population_mean x)" x] by simp
  have d: "ss_sampleStandardDeviation x = Inr (sqrt v)"
    unfolding v_def by (rule sample_parts(2)[OF x])
  have "ss_sampleCorrelation x x = Inr (jdiv (jdiv (Fin v) (Fin (sqrt v))) (Fin (sqrt v)))"
    by (simp only: ss_sampleCorrelation_def c d sum.case)
  also have "jdiv (jdiv (Fin v) (Fin (sqrt v))) (Fin (sqrt v)) = Fin 1"
    using pos by (simp add: real_div_sqrt)
  finally show ?thesis
    unfolding pearson_entry_def Let_def x_def[symmetric] by simp
qed

text \<open>
  C6 (the code differs).  Three rows, column \<open>b\<close> with the same value in each: the
  diagonal entry of \<open>b\<close> is \<^verbatim>\<open>NaN\<close>, not 1, while the diagonal entry of the varying
  column \<open>a\<close> is 1.
\<close>

theorem diagonal_of_constant_column:
  "lookup2 (pr_matrix (calculatePearson no_numeric_strings [row_ab 1 5, row_ab 2 5, row_ab 3 5]
                         [''a'', ''b''] ''oil.xlsx'')) ''b'' ''b'' = Some NaN
   \<and> lookup2 (pr_matrix (calculatePearson no_numeric_strings [row_ab 1 5, row_ab 2 5, row_ab 3 5]
                         [''a'', ''b''] ''oil.xlsx'')) ''a'' ''a'' = Some (Fin 1)"
  by (simp add: lookup2_def pr_matrix_lookup pearson_row_lookup pearson_entry_def row_ab_def coerce_def
      ss_sampleCorrelation_def ss_sampleCovariance_def ss_sampleStandardDeviation_def
      ss_sampleVariance_def sumNthPowerDeviations2_def ss_mean_def upt_conv_Cons)

section \<open>Facts about the standardisation\<close>

lemma mapM_res_Inr:
  "(\<forall>x \<in> set xs. f x = Inr (g x)) \<Longrightarrow> mapM_res f xs = Inr (map g xs)"
  by (induction xs) auto

lemma column_featureMatrix:
  "j < length cols \<Longrightarrow> column (featureMatrix nos data cols) j = raw_column nos data (cols ! j)"
  by (simp add: column_def featureMatrix_def raw_column_def)

lemma ss_mean_eq: "xs \<noteq> [] \<Longrightarrow> ss_mean xs = Inr (population_mean xs)"
  by (simp add: ss_mean_def population_mean_def)

lemma ss_variance_eq: "xs \<noteq> [] \<Longrightarrow> ss_variance xs = Inr (population_variance xs)"
  by (simp add: ss_variance_def sumNthPowerDeviations2_def ss_mean_eq population_variance_def
      power2_eq_square)

lemma population_variance_single: "population_variance [v] = 0"
  by (simp add: population_variance_def population_mean_def)

lemma ss_standardDeviation_eq:
  "xs \<noteq> [] \<Longrightarrow> ss_standardDeviation xs = Inr (sqrt (population_variance xs))"
proof (cases "length xs = 1")
  case True
  then obtain v where "xs = [v]"
    by (cases xs) auto
  then show ?thesis
    by (simp add: ss_standardDeviation_def population_variance_single)
next
  case False
  assume "xs \<noteq> []"
  with False show ?thesis
    by (simp add: ss_standardDeviation_def ss_variance_eq)
qed

lemma fit_means_eq:
  assumes "data \<noteq> []"
  shows "fit_means (featureMatrix nos data cols) (length cols)
           = Inr (map (\<lambda>j. population_mean (raw_column nos data (cols ! j))) [0..<length cols])"
  unfolding fit_means_def
  by (rule mapM_res_Inr) (use assms in \<open>simp add: column_featureMatrix ss_mean_eq raw_column_def\<close>)

lemma fit_stds_eq:
  assumes "data \<noteq> []"
  shows "fit_stds (featureMatrix nos data cols) (length cols)
           = Inr (map (\<lambda>j. std_or_1 (raw_column nos data (cols ! j))) [0..<length cols])"
  unfolding fit_stds_def
  by (rule mapM_res_Inr)
     (use assms in \<open>simp add: column_featureMatrix ss_standardDeviation_eq raw_column_def std_or_1_def\<close>)

lemma standardize_eq:
  assumes "data \<noteq> []"
  shows "standardize nos data cols
           = Inr (map (\<lambda>d. map (\<lambda>j. (coerce nos d (cols ! j) - population_mean (raw_column nos data (cols ! j)))
                                   / std_or_1 (raw_column nos data (cols ! j))) [0..<length cols]) data)"
proof -
  have "standardize nos data cols
          = Inr (scale_matrix (featureMatrix nos data cols)
                   (map (\<lambda>j. population_mean (raw_column nos data (cols ! j))) [0..<length cols])
                   (map (\<lambda>j. std_or_1 (raw_column nos data (cols ! j))) [0..<length cols]))"
    using assms by (simp add: standardize_def fit_means_eq fit_stds_eq)
  then show ?thesis
    by (simp add: scale_matrix_def featureMatrix_def)
qed

lemma population_mean_const:
  assumes "xs \<noteq> []" and "\<forall>x \<in> set xs. x = c"
  shows "population_mean xs = c"
proof -
  have "xs = replicate (length xs) c"
    using assms(2) map_const_replicate[of xs "\<lambda>x. x" c] by simp
  then have "sum_list xs = real (length xs) * c"
    by (metis sum_list_replicate)
  with assms(1) show ?thesis
    by (simp add: population_mean_def)
qed







section \<open>Facts about the cluster statistics\<close>

lemma scaled_entry_eq: "scaled_entry vals = Inr (population_stat vals)"
proof (cases vals)
  case Nil
  then show ?thesis by (simp add: scaled_entry_def population_stat_def)
next
  case (Cons v vs)
  show ?thesis
  proof (cases vs)
    case Nil
    with Cons show ?thesis
      by (simp add: scaled_entry_def population_stat_def ss_mean_eq population_variance_single)
  next
    case (Cons w ws)
    with \<open>vals = v # vs\<close> show ?thesis
      by (simp add: scaled_entry_def population_stat_def ss_mean_eq ss_variance_eq)
  qed
qed

lemma raw_stat_eq: "raw_stat nos raw col = Inr (raw_mean_or_0 nos raw col)"
  by (simp add: raw_stat_def raw_mean_or_0_def ss_mean_eq raw_column_def)

lemma stats_cols_loop_eq:
  "stats_cols_loop nos raw scaled ps (st, sc)
     = Inr (fold (\<lambda>(col, j) m. m(col \<mapsto> raw_mean_or_0 nos raw col)) ps st,
            fold (\<lambda>(col, j) m. m(col \<mapsto> population_stat (map (\<lambda>row. row ! j) scaled))) ps sc)"
  by (induction ps arbitrary: st sc) (auto simp: raw_stat_eq scaled_entry_eq)

lemma fold_upd_pairs_lookup:
  "if col \<in> fst ` set ps
   then \<exists>j. (col, j) \<in> set ps \<and> fold (\<lambda>(c, j) m. m(c \<mapsto> f c j)) ps m0 col = Some (f col j)
   else fold (\<lambda>(c, j) m. m(c \<mapsto> f c j)) ps m0 col = m0 col"
proof (induction ps arbitrary: m0)
  case Nil
  then show ?case by simp
next
  case (Cons p ps)
  let ?F = "\<lambda>(c, j) m. m(c \<mapsto> f c j)"
  obtain c j where p: "p = (c, j)" by (cases p)
  have step: "fold ?F (p # ps) m0 = fold ?F ps (m0(c \<mapsto> f c j))"
    by (simp add: p)
  note IH = Cons[of "m0(c \<mapsto> f c j)"]
  show ?case
  proof (cases "col \<in> fst ` set ps")
    case True
    with IH obtain j' where "(col, j') \<in> set ps"
      and "fold ?F ps (m0(c \<mapsto> f c j)) col = Some (f col j')"
      by auto
    then have "(col, j') \<in> set (p # ps) \<and> fold ?F (p # ps) m0 col = Some (f col j')"
      by (simp only: step) simp
    moreover have "col \<in> fst ` set (p # ps)"
      using True by simp
    ultimately show ?thesis
      by (simp only: if_True) blast
  next
    case False
    with IH have r: "fold ?F (p # ps) m0 col = (m0(c \<mapsto> f c j)) col"
      by (simp only: step if_False)
    show ?thesis
    proof (cases "col = c")
      case True
      have "(col, j) \<in> set (p # ps) \<and> fold ?F (p # ps) m0 col = Some (f col j)"
        using r True by (simp add: p)
      moreover have "col \<in> fst ` set (p # ps)"
        using True by (simp add: p)
      ultimately show ?thesis
        by (simp only: if_True) blast
    next
      case ne: False
      have "col \<notin> fst ` set (p # ps)"
        using False ne by (simp add: p)
      moreover have "fold ?F (p # ps) m0 col = m0 col"
        using r ne by simp
      ultimately show ?thesis
        by (simp only: if_False)
    qed
  qed
qed

lemma fold_upd_zip_lookup:
  assumes "col \<in> set cols"
  shows "\<exists>j<length cols. cols ! j = col
           \<and> fold (\<lambda>(c, j) m. m(c \<mapsto> f c j)) (zip cols [0..<length cols]) m0 col = Some (f col j)"
proof -
  have "col \<in> fst ` set (zip cols [0..<length cols])"
    using assms by (simp add: map_fst_zip flip: set_map)
  with fold_upd_pairs_lookup[of col "zip cols [0..<length cols]" f m0]
  obtain j where j: "(col, j) \<in> set (zip cols [0..<length cols])"
    and v: "fold (\<lambda>(c, j) m. m(c \<mapsto> f c j)) (zip cols [0..<length cols]) m0 col = Some (f col j)"
    by auto
  from j have "j < length cols \<and> cols ! j = col"
    by (auto simp: in_set_zip)
  with v show ?thesis by blast
qed


lemma stats_loop_eq:
  "stats_loop nos finalData finalMatrix clusters cols ids (stats, scaledStats)
     = Inr (fold (\<lambda>i m. m(i \<mapsto> cluster_raw_stats nos finalData clusters cols i)) ids stats,
            fold (\<lambda>i m. m(i \<mapsto> cluster_scaled_stats finalMatrix clusters cols i)) ids scaledStats)"
  by (induction ids arbitrary: stats scaledStats)
     (simp_all add: stats_cols_loop_eq cluster_raw_stats_def cluster_scaled_stats_def)

text \<open>
  C5 (as amended).  The statistics loops never fail.  For every cluster id below \<open>k\<close> and
  every selected column the standardised statistics are the mean and the population
  variance (divisor \<open>n\<close>, not \<open>n - 1\<close>) of that column over the scaled rows labelled with
  the id; a cluster without rows reports mean 0 and variance 0.
\<close>

theorem cluster_stats_population:
  "\<exists>stats scaledStats.
     stats_loop nos finalData finalMatrix clusters selectedCols [0..<k] (Map.empty, Map.empty)
       = Inr (stats, scaledStats)
     \<and> dom scaledStats = {..<k}
     \<and> (\<forall>i<k. \<forall>col \<in> set selectedCols. \<exists>j<length selectedCols. selectedCols ! j = col
           \<and> lookup2 scaledStats i col
               = Some (population_stat (map (\<lambda>row. row ! j)
                         (filter_idx (\<lambda>idx. nth_opt clusters idx = Some i) finalMatrix)))
           \<and> (filter_idx (\<lambda>idx. nth_opt clusters idx = Some i) finalMatrix = []
                 \<longrightarrow> lookup2 scaledStats i col = Some \<lparr> st_mean = 0, st_variance = 0 \<rparr>))"
proof -
  let ?st = "fold (\<lambda>i m. m(i \<mapsto> cluster_raw_stats nos finalData clusters selectedCols i)) [0..<k] Map.empty"
  let ?sc = "fold (\<lambda>i m. m(i \<mapsto> cluster_scaled_stats finalMatrix clusters selectedCols i)) [0..<k] Map.empty"
  have eq: "stats_loop nos finalData finalMatrix clusters selectedCols [0..<k] (Map.empty, Map.empty)
              = Inr (?st, ?sc)"
    by (rule stats_loop_eq)
  have row: "?sc i = (if i < k then Some (cluster_scaled_stats finalMatrix clusters selectedCols i) else None)" for i
    by (simp add: fold_upd_lookup)
  have d: "dom ?sc = {..<k}"
    by (auto simp: row dom_def)
  have ent: "\<exists>j<length selectedCols. selectedCols ! j = col
           \<and> lookup2 ?sc i col
               = Some (population_stat (map (\<lambda>row. row ! j)
                         (filter_idx (\<lambda>idx. nth_opt clusters idx = Some i) finalMatrix)))
           \<and> (filter_idx (\<lambda>idx. nth_opt clusters idx = Some i) finalMatrix = []
                 \<longrightarrow> lookup2 ?sc i col = Some \<lparr> st_mean = 0, st_variance = 0 \<rparr>)"
    if "i < k" and "col \<in> set selectedCols" for i col
  proof -
    let ?rows = "filter_idx (\<lambda>idx. nth_opt clusters idx = Some i) finalMatrix"
    from fold_upd_zip_lookup[OF that(2), of "\<lambda>c j. population_stat (map (\<lambda>row. row ! j) ?rows)" Map.empty]
    obtain j where j: "j < length selectedCols" "selectedCols ! j = col"
      and v: "cluster_scaled_stats finalMatrix clusters selectedCols i col
                = Some (population_stat (map (\<lambda>row. row ! j) ?rows))"
      unfolding cluster_scaled_stats_def by blast
    have l: "lookup2 ?sc i col = Some (population_stat (map (\<lambda>row. row ! j) ?rows))"
      using that(1) v by (simp add: lookup2_def row)
    moreover have "?rows = [] \<longrightarrow> lookup2 ?sc i col = Some \<lparr> st_mean = 0, st_variance = 0 \<rparr>"
      unfolding l by (simp add: population_stat_def)
    ultimately show ?thesis
      using j by blast
  qed
  show ?thesis
    unfolding eq using d ent by blast
qed


theorem cluster_stats_population_witness:
  "lookup2 (snd (projr (stats_loop no_numeric_strings [row_ab 0 0, row_ab 2 0, row_ab 5 0]
                          [[0], [2], [5]] [0, 0, 1] [''a''] [0..<3] (Map.empty, Map.empty)))) 2 ''a''
     = Some \<lparr> st_mean = 0, st_variance = 0 \<rparr>"
proof -
  have e: "filter_idx (\<lambda>idx. nth_opt [0, 0, 1::nat] idx = Some 2) [[0], [2], [5::real]] = []"
    by (simp add: filter_idx_def nth_opt_def upt_conv_Cons)
  from cluster_stats_population [of no_numeric_strings "[row_ab 0 0, row_ab 2 0, row_ab 5 0]"
      "[[0], [2], [5]]" "[0, 0, 1]" "[''a'']" 3]
  obtain stats scaledStats where
    r: "stats_loop no_numeric_strings [row_ab 0 0, row_ab 2 0, row_ab 5 0]
          [[0], [2], [5]] [0, 0, 1] [''a''] [0..<3] (Map.empty, Map.empty) = Inr (stats, scaledStats)"
    and a: "\<And>i col. i < 3 \<Longrightarrow> col \<in> set [''a''] \<Longrightarrow>
              filter_idx (\<lambda>idx. nth_opt [0, 0, 1::nat] idx = Some i) [[0], [2], [5::real]] = []
                \<Longrightarrow> lookup2 scaledStats i col = Some \<lparr> st_mean = 0, st_variance = 0 \<rparr>"
    by blast
  have "lookup2 scaledStats 2 ''a'' = Some \<lparr> st_mean = 0, st_variance = 0 \<rparr>"
    by (rule a[OF _ _ e]) simp_all
  then show ?thesis
    unfolding r by simp
qed

text \<open>
  C5 as stated fails: for a cluster with the scaled values \<open>0, 2\<close> the reported variance is
  1, the population variance; the sample variance of the library is 2.
\<close>

theorem cluster_variance_not_sample:
  "lookup2 (snd (projr (stats_loop no_numeric_strings [row_ab 0 0, row_ab 2 0]
                          [[0], [2]] [0, 0] [''a''] [0..<1] (Map.empty, Map.empty)))) 0 ''a''
     = Some \<lparr> st_mean = 1, st_variance = 1 \<rparr>
   \<and> ss_sampleVariance [0, 2] = Inr 2"
  by (simp add: lookup2_def filter_idx_def nth_opt_def raw_stat_def scaled_entry_def
      ss_mean_def ss_variance_def ss_sampleVariance_def sumNthPowerDeviations2_def)


section \<open>Facts about the silhouette and the choice of k\<close>

lemma fold_add_sum_list:
  "fold (\<lambda>i acc. acc + g i) xs (a::real) = a + sum_list (map g xs)"
  by (induction xs arbitrary: a) auto

lemma euclideanDistance_eq:
  "euclideanDistance a b = sqrt (\<Sum>i\<leftarrow>[0..<length a]. (a ! i - b ! i)\<^sup>2)"
  by (simp add: euclideanDistance_def fold_add_sum_list)

lemma euclideanDistance_nonneg: "0 \<le> euclideanDistance a b"
  unfolding euclideanDistance_eq by (intro real_sqrt_ge_zero sum_list_nonneg) auto

lemma euclideanDistance_self: "euclideanDistance a a = 0"
  unfolding euclideanDistance_eq by (simp add: sum_list_zero)

lemma avg_dist_nonneg: "0 \<le> avg_dist m point idxs"
  unfolding avg_dist_def fold_add_sum_list
  by (intro divide_nonneg_nonneg add_nonneg_nonneg sum_list_nonneg)
     (auto simp: euclideanDistance_nonneg)

lemma jmin_nonneg_or_inf:
  "nonneg_or_inf b \<Longrightarrow> 0 \<le> a \<Longrightarrow> nonneg_or_inf (jmin b (Fin a))"
  by (cases b) (auto simp: nonneg_or_inf_def)

lemma fold_jmin_nonneg_or_inf:
  "nonneg_or_inf b \<Longrightarrow> (\<forall>c. 0 \<le> g c) \<Longrightarrow> nonneg_or_inf (fold (\<lambda>c bi. jmin bi (Fin (g c))) cs b)"
  by (induction cs arbitrary: b) (auto simp: jmin_nonneg_or_inf)

lemma silhouette_ratio_finite:
  assumes "nonneg_or_inf bi" and "0 \<le> ai"
  shows "\<exists>v. (if isNaN (jdiv (jsub bi (Fin ai)) (jmax (Fin ai) bi)) then Fin 0
              else jdiv (jsub bi (Fin ai)) (jmax (Fin ai) bi)) = Fin v"
  using assms by (cases bi) (auto simp: nonneg_or_inf_def isNaN_def jsub_def)

lemma silhouette_sample_finite: "\<exists>v. s_value (silhouette_sample m clusters i) = Fin v"
proof -
  define same where
    "same = filter (\<lambda>idx. clusters ! idx = clusters ! i \<and> idx \<noteq> i) [0..<length clusters]"
  define ai where "ai = (if 0 < length same then avg_dist m (m ! i) same else 0)"
  define bi where
    "bi = fold (\<lambda>otherC bi. jmin bi (Fin (avg_dist m (m ! i)
                   (filter (\<lambda>idx. clusters ! idx = otherC) [0..<length clusters]))))
                 (filter (\<lambda>c. c \<noteq> clusters ! i) (uniq clusters)) PosInf"
  have a: "0 \<le> ai"
    by (simp add: ai_def avg_dist_nonneg)
  have b: "nonneg_or_inf bi"
    unfolding bi_def
    by (rule fold_jmin_nonneg_or_inf) (simp_all add: nonneg_or_inf_def avg_dist_nonneg)
  have "s_value (silhouette_sample m clusters i)
          = (if isNaN (jdiv (jsub bi (Fin ai)) (jmax (Fin ai) bi)) then Fin 0
             else jdiv (jsub bi (Fin ai)) (jmax (Fin ai) bi))"
    unfolding silhouette_sample_def Let_def ai_def bi_def same_def by simp
  with silhouette_ratio_finite[OF b a] show ?thesis
    by simp
qed

lemma fold_jadd_finite:
  "(\<forall>s \<in> set xs. \<exists>v. f s = Fin v) \<Longrightarrow> \<exists>v. fold (\<lambda>s acc. jadd acc (f s)) xs (Fin a) = Fin v"
  by (induction xs arbitrary: a) auto

lemma calculateSilhouette_finite: "\<exists>v. sil_avg (calculateSilhouette m clusters) = Fin v"
proof (cases "length m \<le> 1")
  case True
  then show ?thesis by (simp add: calculateSilhouette_def)
next
  case False
  have "\<exists>v. fold (\<lambda>s acc. jadd acc (s_value s)) (map (silhouette_sample m clusters) [0..<length m]) (Fin 0) = Fin v"
    by (rule fold_jadd_finite) (auto simp: silhouette_sample_finite)
  then obtain v where "fold (\<lambda>s acc. jadd acc (s_value s)) (map (silhouette_sample m clusters) [0..<length m]) (Fin 0) = Fin v"
    by blast
  moreover have "real (length m) \<noteq> 0"
    using False by auto
  ultimately show ?thesis
    using False by (simp add: calculateSilhouette_def Let_def)
qed


declare getSuggestedK_loop.simps [simp del]

lemma sweep_inv_step:
  assumes inv: "sweep_inv env m testK metrics maxSilhouette bestK"
    and k: "2 \<le> testK"
    and run: "kmeans env s m testK = Inr (res, s')"
    and sil: "sil = sil_avg (calculateSilhouette m (km_clusters res))"
    and x: "x = \<lparr> m_k = testK, m_wcss = JUndefined, m_silhouette = sil \<rparr>"
  shows "sweep_inv env m (testK + 1) (metrics @ [x])
           (if jgt sil maxSilhouette then sil else maxSilhouette)
           (if jgt sil maxSilhouette then testK else bestK)"
proof -
  obtain v where v: "sil = Fin v"
    using calculateSilhouette_finite sil by blast
  have ks: "map m_k (metrics @ [x]) = [2..<testK + 1]"
    using inv k by (simp add: sweep_inv_def x)
  have mx: "metric_of_run env m x"
    unfolding metric_of_run_def using run sil x by auto
  have runs: "\<forall>y \<in> set (metrics @ [x]). metric_of_run env m y"
    using inv mx by (auto simp: sweep_inv_def)
  have old_k: "m_k y < testK" if "y \<in> set metrics" for y
  proof -
    have "map m_k metrics = [2..<testK]"
      using inv by (simp add: sweep_inv_def)
    moreover have "m_k y \<in> set (map m_k metrics)"
      using that by simp
    ultimately have "m_k y \<in> set [2..<testK]"
      by simp
    then show ?thesis
      by simp
  qed
  show ?thesis
  proof (cases "metrics = []")
    case True
    then have "maxSilhouette = NegInf"
      using inv by (simp add: sweep_inv_def)
    then have g: "jgt sil maxSilhouette"
      by (simp add: v)
    show ?thesis
      unfolding sweep_inv_def using ks runs g True by (auto simp: x v)
  next
    case False
    then obtain b vb where b: "b \<in> set metrics" "m_k b = bestK" "maxSilhouette = Fin vb"
      "m_silhouette b = Fin vb"
      and best: "\<And>y. y \<in> set metrics \<Longrightarrow> \<exists>vy. m_silhouette y = Fin vy \<and> vy \<le> vb
                                          \<and> (m_k y < bestK \<longrightarrow> vy < vb)"
      using inv unfolding sweep_inv_def by auto
    show ?thesis
    proof (cases "jgt sil maxSilhouette")
      case True
      then have lt: "vb < v"
        by (simp add: v b(3))
      have "\<exists>vy. m_silhouette y = Fin vy \<and> vy \<le> v \<and> (m_k y < testK \<longrightarrow> vy < v)"
        if "y \<in> set (metrics @ [x])" for y
      proof (cases "y = x")
        case True
        then show ?thesis by (simp add: x v)
      next
        case False
        with that have "y \<in> set metrics" by simp
        from best[OF this] lt show ?thesis by auto
      qed
      moreover have "x \<in> set (metrics @ [x])" "m_k x = testK" "m_silhouette x = Fin v"
        by (simp_all add: x v)
      ultimately have "\<exists>b' vb'. b' \<in> set (metrics @ [x]) \<and> m_k b' = testK \<and> sil = Fin vb'
                \<and> m_silhouette b' = Fin vb'
                \<and> (\<forall>y \<in> set (metrics @ [x]). \<exists>vy. m_silhouette y = Fin vy \<and> vy \<le> vb'
                                          \<and> (m_k y < testK \<longrightarrow> vy < vb'))"
        using v by blast
      then show ?thesis
        unfolding sweep_inv_def using ks runs True by simp
    next
      case ng: False
      then have le: "v \<le> vb"
        by (simp add: v b(3))
      have bk: "bestK < testK"
        using old_k[OF b(1)] b(2) by simp
      have "\<exists>vy. m_silhouette y = Fin vy \<and> vy \<le> vb \<and> (m_k y < bestK \<longrightarrow> vy < vb)"
        if "y \<in> set (metrics @ [x])" for y
      proof (cases "y = x")
        case True
        then show ?thesis using le bk by (simp add: x v)
      next
        case False
        with that have "y \<in> set metrics" by simp
        from best[OF this] show ?thesis .
      qed
      moreover have "b \<in> set (metrics @ [x])"
        using b(1) by simp
      ultimately have "\<exists>b' vb'. b' \<in> set (metrics @ [x]) \<and> m_k b' = bestK \<and> maxSilhouette = Fin vb'
                \<and> m_silhouette b' = Fin vb'
                \<and> (\<forall>y \<in> set (metrics @ [x]). \<exists>vy. m_silhouette y = Fin vy \<and> vy \<le> vb'
                                          \<and> (m_k y < bestK \<longrightarrow> vy < vb'))"
        using b by blast
      then show ?thesis
        unfolding sweep_inv_def using ks runs ng by simp
    qed
  qed
qed


lemma loop_stop:
  "\<not> int testK \<le> sweep_bound m
   \<Longrightarrow> getSuggestedK_loop env m testK s metrics maxSilhouette bestK = Inr ((bestK, metrics), s)"
  by (subst getSuggestedK_loop.simps) (auto simp add: sweep_bound_def)

lemma loop_error:
  "int testK \<le> sweep_bound m \<Longrightarrow> kmeans env s m testK = Inl e
   \<Longrightarrow> getSuggestedK_loop env m testK s metrics maxSilhouette bestK = Inl e"
  by (subst getSuggestedK_loop.simps) (simp add: sweep_bound_def)

lemma loop_step:
  "int testK \<le> sweep_bound m \<Longrightarrow> kmeans env s m testK = Inr (res, s1)
   \<Longrightarrow> getSuggestedK_loop env m testK s metrics maxSilhouette bestK
       = getSuggestedK_loop env m (testK + 1) s1
           (metrics @ [\<lparr> m_k = testK, m_wcss = JUndefined,
                          m_silhouette = sil_avg (calculateSilhouette m (km_clusters res)) \<rparr>])
           (if jgt (sil_avg (calculateSilhouette m (km_clusters res))) maxSilhouette
            then sil_avg (calculateSilhouette m (km_clusters res)) else maxSilhouette)
           (if jgt (sil_avg (calculateSilhouette m (km_clusters res))) maxSilhouette
            then testK else bestK)"
  by (subst getSuggestedK_loop.simps) (simp add: sweep_bound_def Let_def)

lemma getSuggestedK_loop_inv:
  "getSuggestedK_loop env m testK s metrics maxSilhouette bestK = Inr ((bk, ms), s')
   \<Longrightarrow> sweep_inv env m testK metrics maxSilhouette bestK
   \<Longrightarrow> 2 \<le> testK \<Longrightarrow> int testK \<le> sweep_bound m + 1
   \<Longrightarrow> \<exists>mx. sweep_inv env m (nat (sweep_bound m + 1)) ms mx bk"
proof (induction n \<equiv> "nat (sweep_bound m + 1) - testK"
        arbitrary: testK s metrics maxSilhouette bestK)
  case 0
  then have stop: "\<not> int testK \<le> sweep_bound m" and eq: "nat (sweep_bound m + 1) = testK"
    by auto
  from "0.prems"(1) have "bk = bestK" "ms = metrics"
    by (simp_all add: loop_stop[OF stop])
  with "0.prems"(2) eq show ?case
    by auto
next
  case (Suc n)
  then have go: "int testK \<le> sweep_bound m"
    by auto
  obtain res s1 where run: "kmeans env s m testK = Inr (res, s1)"
    using Suc.prems(1) loop_error[OF go, of env s]
    by (cases "kmeans env s m testK") auto
  define sil where "sil = sil_avg (calculateSilhouette m (km_clusters res))"
  define x where "x = \<lparr> m_k = testK, m_wcss = JUndefined, m_silhouette = sil \<rparr>"
  have step: "sweep_inv env m (testK + 1) (metrics @ [x])
           (if jgt sil maxSilhouette then sil else maxSilhouette)
           (if jgt sil maxSilhouette then testK else bestK)"
    using Suc.prems(2,3) run sil_def x_def by (rule sweep_inv_step)
  have rec: "getSuggestedK_loop env m (testK + 1) s1 (metrics @ [x])
           (if jgt sil maxSilhouette then sil else maxSilhouette)
           (if jgt sil maxSilhouette then testK else bestK) = Inr ((bk, ms), s')"
    using Suc.prems(1) unfolding loop_step[OF go run] sil_def x_def .
  have n: "n = nat (sweep_bound m + 1) - (testK + 1)"
    using Suc.hyps(2) by simp
  show ?case
    by (rule Suc.hyps(1)[OF n rec step]) (use go Suc.prems(3) in auto)
qed

lemma getSuggestedK_loop_returns:
  assumes "kmeans_accepts env"
  shows "1 \<le> testK \<Longrightarrow> \<exists>r. getSuggestedK_loop env m testK s metrics maxSilhouette bestK = Inr r"
proof (induction n \<equiv> "nat (sweep_bound m + 1) - testK"
        arbitrary: testK s metrics maxSilhouette bestK)
  case 0
  then have stop: "\<not> int testK \<le> sweep_bound m"
    by auto
  show ?case
    by (simp add: loop_stop[OF stop])
next
  case (Suc n)
  then have go: "int testK \<le> sweep_bound m"
    by auto
  then have "0 < testK \<and> testK \<le> length m"
    using Suc.prems by (auto simp: sweep_bound_def)
  then have "\<not> isl (kmeans env s m testK)"
    using assms unfolding kmeans_accepts_def by blast
  then obtain res s1 where run: "kmeans env s m testK = Inr (res, s1)"
    by (cases "kmeans env s m testK") auto
  have n: "n = nat (sweep_bound m + 1) - (testK + 1)"
    using Suc.hyps(2) by simp
  show ?case
    unfolding loop_step[OF go run] by (rule Suc.hyps(1)[OF n]) simp
qed


lemma getSuggestedK_returns:
  "kmeans_accepts env \<Longrightarrow> \<exists>r. getSuggestedK env s m = Inr r"
  unfolding getSuggestedK_def by (rule getSuggestedK_loop_returns) simp_all

lemma getSuggestedK_range:
  assumes "3 \<le> length m" and "getSuggestedK env s m = Inr ((bestK, metrics), s')"
  shows "2 \<le> bestK \<and> bestK \<le> min 10 (length m - 1)"
proof -
  have "sweep_inv env m 2 [] NegInf 2"
    by (simp add: sweep_inv_def)
  with assms(2)[unfolded getSuggestedK_def]
  have "\<exists>mx. sweep_inv env m (nat (sweep_bound m + 1)) metrics mx bestK"
    by (rule getSuggestedK_loop_inv) (use assms(1) in \<open>simp_all add: sweep_bound_def\<close>)
  then obtain mx where inv: "sweep_inv env m (nat (sweep_bound m + 1)) metrics mx bestK"
    by blast
  have up: "nat (sweep_bound m + 1) = Suc (min 10 (length m - 1))"
    using assms(1) by (simp add: sweep_bound_def)
  have ks: "map m_k metrics = [2..<Suc (min 10 (length m - 1))]"
    using inv unfolding up by (simp add: sweep_inv_def)
  have "length metrics = length [2..<Suc (min 10 (length m - 1))]"
    using arg_cong[OF ks, of length] by (simp only: length_map)
  then have "length metrics = Suc (min 10 (length m - 1)) - 2"
    by (simp only: length_upt)
  then have "metrics \<noteq> []"
    using assms(1) by auto
  with inv obtain b where "b \<in> set metrics" "m_k b = bestK"
    unfolding sweep_inv_def by auto
  then have "bestK \<in> set (map m_k metrics)"
    by auto
  then show ?thesis
    unfolding ks by auto
qed

lemma stub_kmeans_accepts: "kmeans_accepts stub_libs"
  by (simp add: kmeans_accepts_def stub_libs_def stub_kmeans_def)

text \<open>
  The sweep on four rows of one column with the stand-in for k-means, which labels the
  rows \<open>0, 1, 0, 1\<close> at \<open>k = 2\<close> and \<open>0, 1, 2, 0\<close> at \<open>k = 3\<close>.
\<close>

lemma euclideanDistance_1d: "euclideanDistance [a] [b] = \<bar>a - b\<bar>"
  by (simp add: euclideanDistance_def)

lemma upt4: "[0..<4] = [0, 1, 2, 3::nat]"
  by (simp add: upt_conv_Cons)

lemma stub_labels:
  "map (\<lambda>i. i mod 2) [0..<4] = [0, 1, 0, 1::nat]"
  "map (\<lambda>i. i mod 3) [0..<4] = [0, 1, 2, 0::nat]"
  by (simp_all add: upt4)

lemmas sil_eval = silhouette_sample_def avg_dist_def uniq_def euclideanDistance_1d upt4 Let_def
  jsub_def isNaN_def

lemma samples_rows_2:
  "map (silhouette_sample [[0], [1], [10], [11]] [0, 1, 0, 1]) [0, 1, 2, 3] =
     [\<lparr> s_cluster = 0, s_value = Fin (- 2 / 5) \<rparr>, \<lparr> s_cluster = 1, s_value = Fin (- 1 / 2) \<rparr>,
      \<lparr> s_cluster = 0, s_value = Fin (- 1 / 2) \<rparr>, \<lparr> s_cluster = 1, s_value = Fin (- 2 / 5) \<rparr>]"
  by (simp add: sil_eval)

lemma samples_rows_3:
  "map (silhouette_sample [[0], [1], [10], [11]] [0, 1, 2, 0]) [0, 1, 2, 3] =
     [\<lparr> s_cluster = 0, s_value = Fin (- 10 / 11) \<rparr>, \<lparr> s_cluster = 1, s_value = Fin 1 \<rparr>,
      \<lparr> s_cluster = 2, s_value = Fin 1 \<rparr>, \<lparr> s_cluster = 0, s_value = Fin (- 10 / 11) \<rparr>]"
  by (simp add: sil_eval)

lemma samples_equal_rows_2:
  "map (silhouette_sample [[0], [0], [0], [0]] [0, 1, 0, 1]) [0, 1, 2, 3] =
     [\<lparr> s_cluster = 0, s_value = Fin 0 \<rparr>, \<lparr> s_cluster = 1, s_value = Fin 0 \<rparr>,
      \<lparr> s_cluster = 0, s_value = Fin 0 \<rparr>, \<lparr> s_cluster = 1, s_value = Fin 0 \<rparr>]"
  by (simp add: sil_eval)

lemma samples_equal_rows_3:
  "map (silhouette_sample [[0], [0], [0], [0]] [0, 1, 2, 0]) [0, 1, 2, 3] =
     [\<lparr> s_cluster = 0, s_value = Fin 0 \<rparr>, \<lparr> s_cluster = 1, s_value = Fin 0 \<rparr>,
      \<lparr> s_cluster = 2, s_value = Fin 0 \<rparr>, \<lparr> s_cluster = 0, s_value = Fin 0 \<rparr>]"
  by (simp add: sil_eval)

lemma sil_avg_4:
  assumes "length m = 4" and "map (silhouette_sample m cs) [0, 1, 2, 3] = [a, b, c, d]"
  shows "sil_avg (calculateSilhouette m cs) =
     jdiv (jadd (jadd (jadd (jadd (Fin 0) (s_value a)) (s_value b)) (s_value c)) (s_value d)) (Fin 4)"
  using assms by (simp add: calculateSilhouette_def upt4 Let_def)

lemma sil_rows_2:
  "sil_avg (calculateSilhouette [[0], [1], [10], [11]] [0, 1, 0, 1]) = Fin (- 9 / 20)"
  by (subst sil_avg_4[OF _ samples_rows_2]) simp_all

lemma sil_rows_3:
  "sil_avg (calculateSilhouette [[0], [1], [10], [11]] [0, 1, 2, 0]) = Fin (1 / 22)"
  by (subst sil_avg_4[OF _ samples_rows_3]) simp_all

lemma sil_equal_rows_2:
  "sil_avg (calculateSilhouette [[0], [0], [0], [0]] [0, 1, 0, 1]) = Fin 0"
  by (subst sil_avg_4[OF _ samples_equal_rows_2]) simp_all

lemma sil_equal_rows_3:
  "sil_avg (calculateSilhouette [[0], [0], [0], [0]] [0, 1, 2, 0]) = Fin 0"
  by (subst sil_avg_4[OF _ samples_equal_rows_3]) simp_all

lemma stub_metric:
  "metric_of_run stub_libs m x \<Longrightarrow>
   x = \<lparr> m_k = m_k x, m_wcss = JUndefined,
         m_silhouette = sil_avg (calculateSilhouette m (map (\<lambda>i. i mod m_k x) [0..<length m])) \<rparr>"
  by (auto simp: metric_of_run_def stub_libs_def stub_kmeans_def split: if_splits)

lemma two_metrics:
  assumes "map m_k metrics = [2, 3]"
  obtains x y where "metrics = [x, y]" "m_k x = 2" "m_k y = 3"
  using assms by (cases metrics; cases "tl metrics"; cases "tl (tl metrics)") auto

text \<open>
  What the statement of C8 below determines on four rows, from the two mean silhouettes:
  the metrics, and the chosen \<open>k\<close>, which is 3 only when its silhouette is strictly larger.
\<close>

lemma stub_sweep4:
  assumes len: "length m = 4"
    and ks: "map m_k metrics = [2..<Suc (min 10 (length m - 1))]"
    and runs: "\<forall>x \<in> set metrics. metric_of_run stub_libs m x"
    and best: "\<exists>b vb. b \<in> set metrics \<and> m_k b = bestK \<and> m_silhouette b = Fin vb
                  \<and> (\<forall>y \<in> set metrics. \<exists>vy. m_silhouette y = Fin vy \<and> vy \<le> vb
                                            \<and> (m_k y < bestK \<longrightarrow> vy < vb))"
    and s2: "sil_avg (calculateSilhouette m [0, 1, 0, 1]) = Fin v2"
    and s3: "sil_avg (calculateSilhouette m [0, 1, 2, 0]) = Fin v3"
  shows "bestK = (if v2 < v3 then 3 else 2)
     \<and> metrics = [\<lparr> m_k = 2, m_wcss = JUndefined, m_silhouette = Fin v2 \<rparr>,
                   \<lparr> m_k = 3, m_wcss = JUndefined, m_silhouette = Fin v3 \<rparr>]"
proof -
  have up: "[2..<Suc (min 10 (length m - 1))] = [2, 3]"
    by (simp add: len upt_conv_Cons)
  from ks obtain x y where xy: "metrics = [x, y]" "m_k x = 2" "m_k y = 3"
    unfolding up by (rule two_metrics)
  have x: "x = \<lparr> m_k = 2, m_wcss = JUndefined, m_silhouette = Fin v2 \<rparr>"
    using stub_metric[of m x] runs xy s2 by (simp add: len stub_labels)
  have y: "y = \<lparr> m_k = 3, m_wcss = JUndefined, m_silhouette = Fin v3 \<rparr>"
    using stub_metric[of m y] runs xy s3 by (simp add: len stub_labels)
  have "bestK = (if v2 < v3 then 3 else 2)"
    using best unfolding xy(1) x y by auto
  then show ?thesis
    using xy(1) x y by simp
qed

text \<open>
  C8 (the code differs).  For a matrix of at least three rows the sweep returns whenever
  the k-means library accepts every k from 1 to the number of rows.  Its result has one
  metric for every candidate 2, ..., min(10, n - 1), in this order; the chosen k is one of
  the candidates, its mean silhouette is the largest of the sweep, and strictly larger
  than that of every smaller candidate.  Every metric holds its \<open>k\<close> and the mean
  silhouette of a k-means run at that \<open>k\<close>, but not the inertia of the run: its \<^verbatim>\<open>wcss\<close> is
  \<^verbatim>\<open>undefined\<close>, since the result of the k-means package has no property \<^verbatim>\<open>inertia\<close>.
\<close>

theorem getSuggestedK_selects_best:
  assumes "3 \<le> length m"
  shows "(kmeans_accepts env \<longrightarrow> (\<exists>r. getSuggestedK env s m = Inr r))
       \<and> (\<forall>bestK metrics s'. getSuggestedK env s m = Inr ((bestK, metrics), s') \<longrightarrow>
            map m_k metrics = [2..<Suc (min 10 (length m - 1))]
            \<and> 2 \<le> bestK \<and> bestK \<le> min 10 (length m - 1)
            \<and> (\<forall>x \<in> set metrics. m_wcss x = JUndefined)
            \<and> (\<forall>x \<in> set metrics. metric_of_run env m x)
            \<and> (\<exists>b vb. b \<in> set metrics \<and> m_k b = bestK \<and> m_silhouette b = Fin vb
                  \<and> (\<forall>y \<in> set metrics. \<exists>vy. m_silhouette y = Fin vy \<and> vy \<le> vb
                                            \<and> (m_k y < bestK \<longrightarrow> vy < vb))))"
proof (intro conjI impI allI)
  assume "kmeans_accepts env"
  then show "\<exists>r. getSuggestedK env s m = Inr r"
    unfolding getSuggestedK_def by (rule getSuggestedK_loop_returns) simp
next
  fix bestK metrics s'
  assume r: "getSuggestedK env s m = Inr ((bestK, metrics), s')"
  have up: "nat (sweep_bound m + 1) = Suc (min 10 (length m - 1))"
    using assms by (simp add: sweep_bound_def)
  have init: "sweep_inv env m 2 [] NegInf 2"
    by (simp add: sweep_inv_def)
  have "\<exists>mx. sweep_inv env m (nat (sweep_bound m + 1)) metrics mx bestK"
    using r[unfolded getSuggestedK_def] init
    by (rule getSuggestedK_loop_inv) (use assms in \<open>simp_all add: sweep_bound_def\<close>)
  then obtain mx where inv: "sweep_inv env m (Suc (min 10 (length m - 1))) metrics mx bestK"
    unfolding up by blast
  then have ks: "map m_k metrics = [2..<Suc (min 10 (length m - 1))]"
    by (simp add: sweep_inv_def)
  have "length metrics = length [2..<Suc (min 10 (length m - 1))]"
    using arg_cong[OF ks, of length] by (simp only: length_map)
  then have "length metrics = Suc (min 10 (length m - 1)) - 2"
    by (simp only: length_upt)
  then have ne: "metrics \<noteq> []"
    using assms by auto
  from inv ne obtain b vb where b: "b \<in> set metrics" "m_k b = bestK" "m_silhouette b = Fin vb"
    "\<forall>y \<in> set metrics. \<exists>vy. m_silhouette y = Fin vy \<and> vy \<le> vb \<and> (m_k y < bestK \<longrightarrow> vy < vb)"
    unfolding sweep_inv_def by auto
  have "m_k b \<in> set (map m_k metrics)"
    using b(1) by simp
  then have range: "2 \<le> bestK \<and> bestK \<le> min 10 (length m - 1)"
    unfolding ks using b(2) by auto
  show "map m_k metrics = [2..<Suc (min 10 (length m - 1))]"
    by (rule ks)
  show "2 \<le> bestK" "bestK \<le> min 10 (length m - 1)"
    using range by simp_all
  show runs: "\<forall>x \<in> set metrics. metric_of_run env m x"
    using inv by (simp add: sweep_inv_def)
  then show "\<forall>x \<in> set metrics. m_wcss x = JUndefined"
    by (auto simp: metric_of_run_def)
  show "\<exists>b vb. b \<in> set metrics \<and> m_k b = bestK \<and> m_silhouette b = Fin vb
                  \<and> (\<forall>y \<in> set metrics. \<exists>vy. m_silhouette y = Fin vy \<and> vy \<le> vb
                                            \<and> (m_k y < bestK \<longrightarrow> vy < vb))"
    using b by blast
qed

text \<open>
  Two sweeps over the candidates 2 and 3.  On the rows \<open>0, 1, 10, 11\<close> the mean silhouettes
  are \<open>-9/20\<close> and \<open>1/22\<close>, and the later candidate 3 is chosen for its larger silhouette.
  On four equal rows both silhouettes are 0, and the tie goes to the smaller candidate 2.
  In both the \<^verbatim>\<open>wcss\<close> of every metric is \<^verbatim>\<open>undefined\<close>.
\<close>

theorem getSuggestedK_selects_best_witness:
  "3 \<le> length [[0], [1], [10], [11::real]] \<and> 3 \<le> length [[0], [0], [0], [0::real]]
   \<and> kmeans_accepts stub_libs
   \<and> getSuggestedK stub_libs () [[0], [1], [10], [11]] =
       Inr ((3, [\<lparr> m_k = 2, m_wcss = JUndefined, m_silhouette = Fin (- 9 / 20) \<rparr>,
                 \<lparr> m_k = 3, m_wcss = JUndefined, m_silhouette = Fin (1 / 22) \<rparr>]), ())
   \<and> getSuggestedK stub_libs () [[0], [0], [0], [0]] =
       Inr ((2, [\<lparr> m_k = 2, m_wcss = JUndefined, m_silhouette = Fin 0 \<rparr>,
                 \<lparr> m_k = 3, m_wcss = JUndefined, m_silhouette = Fin 0 \<rparr>]), ())"
proof -
  have sweep: "getSuggestedK stub_libs () m =
       Inr ((if v2 < v3 then 3 else 2,
             [\<lparr> m_k = 2, m_wcss = JUndefined, m_silhouette = Fin v2 \<rparr>,
              \<lparr> m_k = 3, m_wcss = JUndefined, m_silhouette = Fin v3 \<rparr>]), ())"
    if len: "length m = 4"
      and s2: "sil_avg (calculateSilhouette m [0, 1, 0, 1]) = Fin v2"
      and s3: "sil_avg (calculateSilhouette m [0, 1, 2, 0]) = Fin v3"
    for m v2 v3
  proof -
    have three: "3 \<le> length m"
      using len by simp
    note t = getSuggestedK_selects_best [OF three, of stub_libs "()"]
    from t stub_kmeans_accepts obtain r where "getSuggestedK stub_libs () m = Inr r"
      by blast
    then obtain bestK metrics where r: "getSuggestedK stub_libs () m = Inr ((bestK, metrics), ())"
      by (cases r) auto
    with t have ks: "map m_k metrics = [2..<Suc (min 10 (length m - 1))]"
      and runs: "\<forall>x \<in> set metrics. metric_of_run stub_libs m x"
      and best: "\<exists>b vb. b \<in> set metrics \<and> m_k b = bestK \<and> m_silhouette b = Fin vb
                  \<and> (\<forall>y \<in> set metrics. \<exists>vy. m_silhouette y = Fin vy \<and> vy \<le> vb
                                            \<and> (m_k y < bestK \<longrightarrow> vy < vb))"
      by blast+
    from stub_sweep4[OF len ks runs best s2 s3] r show ?thesis
      by simp
  qed
  have a: "getSuggestedK stub_libs () [[0], [1], [10], [11]] =
       Inr ((3, [\<lparr> m_k = 2, m_wcss = JUndefined, m_silhouette = Fin (- 9 / 20) \<rparr>,
                 \<lparr> m_k = 3, m_wcss = JUndefined, m_silhouette = Fin (1 / 22) \<rparr>]), ())"
    using sweep[OF _ sil_rows_2 sil_rows_3] by simp
  have b: "getSuggestedK stub_libs () [[0], [0], [0], [0]] =
       Inr ((2, [\<lparr> m_k = 2, m_wcss = JUndefined, m_silhouette = Fin 0 \<rparr>,
                 \<lparr> m_k = 3, m_wcss = JUndefined, m_silhouette = Fin 0 \<rparr>]), ())"
    using sweep[OF _ sil_equal_rows_2 sil_equal_rows_3] by simp
  from a b stub_kmeans_accepts show ?thesis
    by simp
qed

lemma getSuggestedK_small:
  "length m < 3 \<Longrightarrow> getSuggestedK env s m = Inr ((2, []), s)"
  unfolding getSuggestedK_def by (rule loop_stop) (simp add: sweep_bound_def)


section \<open>Facts about the outlier detection\<close>

lemma sort_all_dists:
  assumes "i < length proj"
  shows "sort (map (euclideanDistance (proj ! i)) proj) = 0 # sort (nonself_dists proj i)"
proof -
  let ?ds = "map (euclideanDistance (proj ! i)) proj"
  have i: "i < length ?ds"
    using assms by simp
  have "?ds = take i ?ds @ ?ds ! i # drop (Suc i) ?ds"
    using i by (rule id_take_nth_drop)
  moreover have "?ds ! i = 0"
    using assms by (simp add: euclideanDistance_self)
  ultimately have ds: "?ds = take i ?ds @ 0 # drop (Suc i) ?ds"
    by simp
  have "mset ?ds = mset (take i ?ds @ 0 # drop (Suc i) ?ds)"
    using ds by simp
  then have m: "mset (0 # sort (nonself_dists proj i)) = mset ?ds"
    by (simp add: nonself_dists_def Let_def)
  have "\<forall>x \<in> set (nonself_dists proj i). 0 \<le> x"
    by (auto simp: nonself_dists_def Let_def euclideanDistance_nonneg dest!: in_set_takeD in_set_dropD)
  then have s: "sorted (0 # sort (nonself_dists proj i))"
    by simp
  from m s show ?thesis
    by (rule properties_for_sort)
qed

lemma knn_score_eq:
  assumes "i < length proj" and "2 \<le> length proj"
  shows "knn_score proj (proj ! i) = Inr (population_mean (take 5 (sort (nonself_dists proj i))))"
proof -
  have "length (nonself_dists proj i) = length proj - 1"
    using assms by (simp add: nonself_dists_def Let_def)
  then have "length (take 5 (sort (nonself_dists proj i))) \<noteq> 0"
    using assms(2) by simp
  then have "take 5 (sort (nonself_dists proj i)) \<noteq> []"
    by (simp only: length_0_conv not_False_eq_True)
  then show ?thesis
    by (simp add: knn_score_def Let_def sort_all_dists[OF assms(1)] ss_mean_eq)
qed

lemma mapM_res_nth:
  "(\<forall>i < length xs. f (xs ! i) = Inr (g i)) \<Longrightarrow> mapM_res f xs = Inr (map g [0..<length xs])"
proof (induction xs arbitrary: g)
  case Nil
  then show ?case by simp
next
  case (Cons x xs)
  have "f x = Inr (g 0)"
    using Cons.prems by auto
  moreover have "mapM_res f xs = Inr (map (\<lambda>i. g (Suc i)) [0..<length xs])"
    by (rule Cons.IH) (use Cons.prems in auto)
  moreover have "map g [0..<length (x # xs)] = g 0 # map (\<lambda>i. g (Suc i)) [0..<length xs]"
    by (simp add: upt_conv_Cons map_Suc_upt[symmetric] del: upt_Suc)
  ultimately show ?case
    by simp
qed

lemma detectOutliers_small: "length m < 5 \<Longrightarrow> detectOutliers env m = Inr []"
  by (simp add: detectOutliers_def)

lemma detectOutliers_scores:
  assumes "5 \<le> length m" and "pca_predict env m = Inr proj" and "2 \<le> length proj"
  shows "detectOutliers env m
           = Inr (filter (\<lambda>i. population_mean (knn_scores proj)
                               + 2 * sqrt (population_variance (knn_scores proj)) < knn_scores proj ! i)
                    [0..<length proj])"
proof -
  have sc: "mapM_res (knn_score proj) proj = Inr (knn_scores proj)"
    unfolding knn_scores_def
    by (rule mapM_res_nth) (use assms(3) in \<open>simp add: knn_score_eq\<close>)
  have ne: "knn_scores proj \<noteq> []"
    using assms(3) by (auto simp: knn_scores_def)
  have len: "length (knn_scores proj) = length proj"
    by (simp add: knn_scores_def)
  show ?thesis
    using assms(1)
    by (simp add: detectOutliers_def assms(2) sc ss_mean_eq[OF ne] ss_standardDeviation_eq[OF ne] len)
qed

lemma sqrt_square_nat: "0 \<le> r \<Longrightarrow> x = r * r \<Longrightarrow> sqrt x = r"
  by (simp add: real_sqrt_mult)

lemma sqrts:
  "sqrt 324 = 18" "sqrt 576 = 24" "sqrt 900 = 30" "sqrt 289 = 17" "sqrt 225 = 15"
  by (rule sqrt_square_nat; simp)+

lemma dist3: "euclideanDistance [a, b, c] [d, e, f] = sqrt ((a - d)\<^sup>2 + (b - e)\<^sup>2 + (c - f)\<^sup>2)"
  by (simp add: euclideanDistance_def upt_conv_Cons)


lemma dist2: "euclideanDistance [a, b] [d, e] = sqrt ((a - d)\<^sup>2 + (b - e)\<^sup>2)"
  by (simp add: euclideanDistance_def upt_conv_Cons)

lemma scores3:
  "mapM_res (knn_score M9) M9
     = Inr [77 / 5, 77 / 5, 77 / 5, 77 / 5, 77 / 5, 77 / 5, 77 / 5, 77 / 5, 17]"
  by (simp add: knn_score_def M9_def dist3 sqrts ss_mean_def)

lemma scores2:
  "mapM_res (knn_score (map (take 2) M9)) (map (take 2) M9)
     = Inr [15, 15, 15, 15, 15, 15, 15, 15, 15]"
  by (simp add: knn_score_def M9_def dist2 sqrts ss_mean_def)

lemma threshold3:
  "ss_mean [77 / 5, 77 / 5, 77 / 5, 77 / 5, 77 / 5, 77 / 5, 77 / 5, 77 / 5, 17] = Inr (701 / 45)"
  "ss_standardDeviation [77 / 5, 77 / 5, 77 / 5, 77 / 5, 77 / 5, 77 / 5, 77 / 5, 77 / 5, 17]
     = Inr (sqrt (512 / 2025))"
  by (simp_all add: ss_mean_def ss_standardDeviation_def ss_variance_def sumNthPowerDeviations2_def)


lemma threshold3_cmp:
  "(701 / 45 + 2 * sqrt (512 / 2025) < (17::real)) = True"
  "(701 / 45 + 2 * sqrt (512 / 2025) < (77 / 5::real)) = False"
proof -
  have "sqrt (512 / 2025) < (32 / 45::real)"
    by (rule real_less_lsqrt) (simp_all add: power2_eq_square)
  then show "(701 / 45 + 2 * sqrt (512 / 2025) < (17::real)) = True"
    by simp
  have "0 \<le> sqrt (512 / 2025 :: real)"
    by simp
  then have "\<not> 701 / 45 + 2 * sqrt (512 / 2025) < (77 / 5::real)"
    by linarith
  then show "(701 / 45 + 2 * sqrt (512 / 2025) < (77 / 5::real)) = False"
    by simp
qed

text \<open>
  C7 (the code differs).  \<^verbatim>\<open>detectOutliers\<close> calls \<^verbatim>\<open>pca.predict(matrix)\<close> without
  \<^verbatim>\<open>nComponents\<close> and \<^verbatim>\<open>euclideanDistance\<close> adds up all coordinates of a projected row, so
  the scores are distances over every component the library returns, not over two.  On
  \<open>M9\<close>, projected on all three of its axes, the ninth point is flagged; on the first two
  components alone every point has the score 15 and nothing is flagged.
\<close>

theorem detectOutliers_uses_all_components:
  "detectOutliers stub_libs M9 = Inr [8]
   \<and> detectOutliers stub_libs (map (take 2) M9) = Inr []"
proof -
  have len: "\<not> length M9 < 5" "\<not> length (map (take 2) M9) < 5"
    by (simp_all add: M9_def)
  have "detectOutliers stub_libs M9 = Inr [8]"
    unfolding detectOutliers_def
    by (simp only: len if_False stub_libs_def libs.simps stub_pca_def sum.case scores3 threshold3 Let_def)
       (simp only: threshold3_cmp nth_Cons_0 nth_Cons_numeral nth_Cons_Suc upt_conv_Cons filter.simps list.size, simp add: threshold3_cmp upt_conv_Cons)
  moreover have "detectOutliers stub_libs (map (take 2) M9) = Inr []"
    unfolding detectOutliers_def
    by (simp only: len if_False stub_libs_def libs.simps stub_pca_def sum.case scores2 Let_def)
       (simp add: ss_mean_def ss_standardDeviation_def ss_variance_def sumNthPowerDeviations2_def upt_conv_Cons)
  ultimately show ?thesis
    by simp
qed


section \<open>Facts about the clustering run\<close>

lemma truthy_default_false: "truthy (default_false v) = truthy v"
  by (cases v) (simp_all add: default_false_def)

lemma standardize_length:
  "standardize nos data cols = Inr scaled \<Longrightarrow> length scaled = length data"
  by (auto simp: standardize_def Let_def scale_matrix_def featureMatrix_def split: sum.splits)

lemma filter_idx_eq: "filter_idx P xs = map ((!) xs) (filter P [0..<length xs])"
proof -
  have "zip [0..<length xs] xs = map (\<lambda>i. (i, xs ! i)) [0..<length xs]"
    by (rule nth_equalityI) simp_all
  then show ?thesis
    by (simp add: filter_idx_def filter_map comp_def)
qed

lemma kept_rows_length:
  "length (kept_rows ex out xs) = length (kept_indices ex out (length xs))"
  by (simp add: kept_rows_def kept_indices_def filter_idx_eq)

lemma indexOf_None: "indexOf xs v = None \<longleftrightarrow> v \<notin> set xs"
  by (induction xs) auto

lemma indexOf_Some: "indexOf xs v = Some j \<Longrightarrow> j < length xs \<and> xs ! j = v"
  by (induction xs arbitrary: j) (auto split: if_splits)

lemma pcaData_of_length: "length (pcaData_of proj out mapping clusters) = length proj"
  by (simp add: pcaData_of_def)

lemma pcaData_of_nth:
  "i < length proj \<Longrightarrow>
   pcaData_of proj out mapping clusters ! i
     = \<lparr> p_x = nth_opt (proj ! i) 0, p_y = nth_opt (proj ! i) 1,
         p_cluster = (case indexOf mapping i of
                        Some finalIdx \<Rightarrow> map_option int (nth_opt clusters finalIdx)
                      | None \<Rightarrow> Some (- 1)),
         p_isOutlier = (i \<in> set out), p_index = i \<rparr>"
  by (simp add: pcaData_of_def)

lemma performClustering_Inr:
  assumes "performClustering env s data cols arg3 = Inr (r, s')"
  obtains scaled out bestK metrics s1 ans proj stats scaledStats where
    "standardize (number_of_string env) data cols = Inr scaled"
    "detectOutliers env scaled = Inr out"
    "getSuggestedK env s (kept_rows (default_false arg3) out scaled) = Inr ((bestK, metrics), s1)"
    "kmeans env s1 (kept_rows (default_false arg3) out scaled) bestK = Inr (ans, s')"
    "pca_predict env scaled = Inr proj"
    "stats_loop (number_of_string env) (kept_rows (default_false arg3) out data)
        (kept_rows (default_false arg3) out scaled) (km_clusters ans) cols [0..<bestK]
        (Map.empty, Map.empty) = Inr (stats, scaledStats)"
    "cr_k r = bestK" "cr_clusters r = km_clusters ans" "cr_outlierIndices r = out"
    "cr_pcaData r = pcaData_of proj out (kept_indices (default_false arg3) out (length data)) (km_clusters ans)"
    "cr_metrics r = metrics" "cr_scaledStats r = scaledStats" "cr_stats r = stats"
    "cr_excludeOutliers r = default_false arg3" "cr_selectedCols r = cols"
  using assms unfolding performClustering_def Let_def
  by (auto split: sum.splits prod.splits)


lemma label_counts:
  assumes "\<forall>p \<in> set ps. \<exists>c<k. f p = Some (int c)"
  shows "(\<Sum>c<k. length (filter (\<lambda>p. f p = Some (int c)) ps)) = length ps"
  using assms
proof (induction ps)
  case Nil
  then show ?case by simp
next
  case (Cons p ps)
  then obtain c0 where c0: "c0 < k" "f p = Some (int c0)"
    by auto
  have "(\<Sum>c<k. length (filter (\<lambda>q. f q = Some (int c)) (p # ps)))
          = (\<Sum>c<k. (if c = c0 then 1 else 0) + length (filter (\<lambda>q. f q = Some (int c)) ps))"
    by (rule sum.cong) (auto simp: c0)
  also have "\<dots> = (\<Sum>c<k. if c = c0 then 1 else 0) + (\<Sum>c<k. length (filter (\<lambda>q. f q = Some (int c)) ps))"
    by (simp add: sum.distrib)
  also have "(\<Sum>c<k. if c = c0 then 1 else 0) = (1::nat)"
    using c0(1) by simp
  also have "(\<Sum>c<k. length (filter (\<lambda>q. f q = Some (int c)) ps)) = length ps"
    using Cons by simp
  finally show ?case
    by simp
qed

lemma kept_indices_set:
  "set (kept_indices ex out n) = {i. i < n \<and> (truthy ex \<longrightarrow> i \<notin> set out)}"
  by (auto simp: kept_indices_def)

text \<open>
  C9.  When k-means returns one label below \<open>k\<close> for every row and the projection has one
  row for every row, the view \<^verbatim>\<open>pcaData\<close> of a returned result has one entry for every
  row, in order.  Without exclusion every entry has a label in \<open>[0, k)\<close> and the counts of
  the labels add up to the number of rows.  With exclusion the entries of the returned
  outlier indices, and only they, have the label \<open>-1\<close> and the outlier flag; every other
  entry has a label in \<open>[0, k)\<close>.
\<close>

theorem performClustering_labels:
  assumes libs: "kmeans_labels_ok env" "pca_rows_ok env"
    and run: "performClustering env s data selectedCols excludeOutliers = Inr (r, s')"
  shows "length (cr_pcaData r) = length data
       \<and> (\<forall>i<length data. p_index (cr_pcaData r ! i) = i
             \<and> p_isOutlier (cr_pcaData r ! i) = (i \<in> set (cr_outlierIndices r)))
       \<and> (\<not> truthy excludeOutliers \<longrightarrow>
             (\<forall>i<length data. \<exists>c<cr_k r. p_cluster (cr_pcaData r ! i) = Some (int c))
           \<and> (\<Sum>c<cr_k r. length (filter (\<lambda>p. p_cluster p = Some (int c)) (cr_pcaData r))) = length data)
       \<and> (truthy excludeOutliers \<longrightarrow>
             (\<forall>i<length data.
                (i \<in> set (cr_outlierIndices r) \<longrightarrow>
                   p_cluster (cr_pcaData r ! i) = Some (- 1) \<and> p_isOutlier (cr_pcaData r ! i))
              \<and> (i \<notin> set (cr_outlierIndices r) \<longrightarrow>
                   (\<exists>c<cr_k r. p_cluster (cr_pcaData r ! i) = Some (int c))
                   \<and> \<not> p_isOutlier (cr_pcaData r ! i))))"
proof -
  define ex where "ex = default_false excludeOutliers"
  from run obtain scaled out bestK metrics s1 ans proj where
    st: "standardize (number_of_string env) data selectedCols = Inr scaled"
    and km: "kmeans env s1 (kept_rows ex out scaled) bestK = Inr (ans, s')"
    and pc: "pca_predict env scaled = Inr proj"
    and k: "cr_k r = bestK" and o: "cr_outlierIndices r = out"
    and pd: "cr_pcaData r = pcaData_of proj out (kept_indices ex out (length data)) (km_clusters ans)"
    unfolding ex_def by (rule performClustering_Inr)
  let ?map = "kept_indices ex out (length data)"
  let ?cl = "km_clusters ans"
  have n: "length scaled = length data"
    using st by (rule standardize_length)
  have pn: "length proj = length data"
    using libs(2) pc n unfolding pca_rows_ok_def by metis
  have cl: "length ?cl = length ?map" "\<forall>c \<in> set ?cl. c < bestK"
    using libs(1) km unfolding kmeans_labels_ok_def
    by (metis kept_rows_length n)+
  have tr: "truthy ex = truthy excludeOutliers"
    by (simp add: ex_def truthy_default_false)
  have entry: "cr_pcaData r ! i
     = \<lparr> p_x = nth_opt (proj ! i) 0, p_y = nth_opt (proj ! i) 1,
         p_cluster = (case indexOf ?map i of
                        Some finalIdx \<Rightarrow> map_option int (nth_opt ?cl finalIdx)
                      | None \<Rightarrow> Some (- 1)),
         p_isOutlier = (i \<in> set out), p_index = i \<rparr>" if "i < length data" for i
    unfolding pd using that pn by (simp add: pcaData_of_nth)
  have kept: "\<exists>c<bestK. p_cluster (cr_pcaData r ! i) = Some (int c)"
    if i: "i < length data" and m: "i \<in> set ?map" for i
  proof -
    from m obtain j where j: "indexOf ?map i = Some j"
      using indexOf_None[of ?map i] by (cases "indexOf ?map i") auto
    then have "j < length ?cl"
      using indexOf_Some[OF j] cl(1) by simp
    then have "nth_opt ?cl j = Some (?cl ! j)" "?cl ! j < bestK"
      using cl(2) by (simp_all add: nth_opt_def)
    then show ?thesis
      using j by (simp add: entry[OF i])
  qed
  have dropped: "p_cluster (cr_pcaData r ! i) = Some (- 1)"
    if i: "i < length data" and m: "i \<notin> set ?map" for i
    using m by (simp add: entry[OF i] indexOf_None[THEN iffD2])
  have len: "length (cr_pcaData r) = length data"
    by (simp add: pd pcaData_of_length pn)
  have flags: "\<forall>i<length data. p_index (cr_pcaData r ! i) = i
             \<and> p_isOutlier (cr_pcaData r ! i) = (i \<in> set (cr_outlierIndices r))"
    by (simp add: entry o)
  have all: "\<not> truthy excludeOutliers \<longrightarrow>
             (\<forall>i<length data. \<exists>c<cr_k r. p_cluster (cr_pcaData r ! i) = Some (int c))
           \<and> (\<Sum>c<cr_k r. length (filter (\<lambda>p. p_cluster p = Some (int c)) (cr_pcaData r))) = length data"
  proof
    assume nt: "\<not> truthy excludeOutliers"
    have lab: "\<exists>c<cr_k r. p_cluster (cr_pcaData r ! i) = Some (int c)" if "i < length data" for i
      using kept[OF that] nt that by (simp add: kept_indices_set tr k)
    have "\<forall>p \<in> set (cr_pcaData r). \<exists>c<cr_k r. p_cluster p = Some (int c)"
      using lab len by (auto simp: in_set_conv_nth)
    from label_counts[OF this] lab len
    show "(\<forall>i<length data. \<exists>c<cr_k r. p_cluster (cr_pcaData r ! i) = Some (int c))
           \<and> (\<Sum>c<cr_k r. length (filter (\<lambda>p. p_cluster p = Some (int c)) (cr_pcaData r))) = length data"
      by simp
  qed
  have excl: "truthy excludeOutliers \<longrightarrow>
             (\<forall>i<length data.
                (i \<in> set (cr_outlierIndices r) \<longrightarrow>
                   p_cluster (cr_pcaData r ! i) = Some (- 1) \<and> p_isOutlier (cr_pcaData r ! i))
              \<and> (i \<notin> set (cr_outlierIndices r) \<longrightarrow>
                   (\<exists>c<cr_k r. p_cluster (cr_pcaData r ! i) = Some (int c))
                   \<and> \<not> p_isOutlier (cr_pcaData r ! i)))"
  proof (intro impI allI conjI)
    fix i
    assume t: "truthy excludeOutliers" and i: "i < length data"
    {
      assume "i \<in> set (cr_outlierIndices r)"
      then have "i \<notin> set ?map"
        using t by (simp add: kept_indices_set tr o)
      from dropped[OF i this] show "p_cluster (cr_pcaData r ! i) = Some (- 1)" .
    }
    {
      assume "i \<in> set (cr_outlierIndices r)"
      then show "p_isOutlier (cr_pcaData r ! i)"
        using flags i by simp
    }
    {
      assume "i \<notin> set (cr_outlierIndices r)"
      then have "i \<in> set ?map"
        using t i by (simp add: kept_indices_set tr o)
      from kept[OF i this] show "\<exists>c<cr_k r. p_cluster (cr_pcaData r ! i) = Some (int c)"
        by (simp add: k)
    }
    {
      assume "i \<notin> set (cr_outlierIndices r)"
      then show "\<not> p_isOutlier (cr_pcaData r ! i)"
        using flags i by simp
    }
  qed
  from len flags all excl show ?thesis
    by (intro conjI)
qed


lemma performClustering_returns:
  assumes st: "standardize (number_of_string env) data cols = Inr scaled"
    and out: "detectOutliers env scaled = Inr out"
    and acc: "kmeans_accepts env" and pca: "\<not> isl (pca_predict env scaled)"
    and two: "2 \<le> length (kept_rows (default_false ex) out scaled)"
  shows "\<exists>r s'. performClustering env s data cols ex = Inr (r, s')"
proof -
  let ?fm = "kept_rows (default_false ex) out scaled"
  from getSuggestedK_returns[OF acc, of s ?fm]
  obtain bestK metrics s1 where g: "getSuggestedK env s ?fm = Inr ((bestK, metrics), s1)"
    by auto
  have bk: "0 < bestK \<and> bestK \<le> length ?fm"
  proof (cases "length ?fm < 3")
    case True
    with g have "bestK = 2"
      by (simp add: getSuggestedK_small)
    with two show ?thesis
      by simp
  next
    case False
    then have "3 \<le> length ?fm"
      by simp
    from getSuggestedK_range[OF this g] show ?thesis
      by auto
  qed
  then have "\<not> isl (kmeans env s1 ?fm bestK)"
    using acc unfolding kmeans_accepts_def by blast
  then obtain ans s2 where km: "kmeans env s1 ?fm bestK = Inr (ans, s2)"
    by (cases "kmeans env s1 ?fm bestK") auto
  from pca obtain proj where pc: "pca_predict env scaled = Inr proj"
    by (cases "pca_predict env scaled") auto
  show ?thesis
    unfolding performClustering_def Let_def
    by (simp add: st out g km pc stats_loop_eq)
qed

lemma standardize_data10: "standardize no_numeric_strings data10 [''a''] = Inr S10"
  by (simp add: standardize_def featureMatrix_def fit_means_def fit_stds_def column_def scale_matrix_def
      ss_mean_def ss_standardDeviation_def ss_variance_def sumNthPowerDeviations2_def
      data10_def S10_def row_ab_def coerce_def numeral_eq_Suc)


lemma dist1: "euclideanDistance [a] [b] = \<bar>a - b\<bar>"
  by (simp add: euclideanDistance_def)

lemma scores10:
  "mapM_res (knn_score S10) S10 = Inr (replicate 9 0 @ [10 / 3])"
  by (simp add: knn_score_def S10_def dist1 ss_mean_def numeral_eq_Suc)

lemma detectOutliers_S10: "detectOutliers stub_libs S10 = Inr [9]"
proof -
  have len: "\<not> length S10 < 5"
    by (simp add: S10_def)
  have m: "ss_mean (replicate 9 0 @ [10 / 3]) = Inr (1 / 3)"
    by (simp add: ss_mean_def sum_list_replicate)
  have sd: "ss_standardDeviation (replicate 9 0 @ [10 / 3]) = Inr 1"
    by (simp add: ss_standardDeviation_def ss_variance_def sumNthPowerDeviations2_def ss_mean_def
        numeral_eq_Suc)
  show ?thesis
    unfolding detectOutliers_def
    by (simp only: len if_False stub_libs_def libs.simps stub_pca_def sum.case scores10 m sd Let_def)
       (simp add: numeral_eq_Suc upt_conv_Cons del: upt_Suc)
qed


lemma stub_kmeans_labels_ok: "kmeans_labels_ok stub_libs"
  by (auto simp: kmeans_labels_ok_def stub_libs_def stub_kmeans_def split: if_splits)

lemma stub_pca_rows_ok: "pca_rows_ok stub_libs"
  by (simp add: pca_rows_ok_def stub_libs_def stub_pca_def)

lemma stub_pca_returns: "\<not> isl (pca_predict stub_libs m)"
  by (simp add: stub_libs_def stub_pca_def)

lemma stub_number_of_string: "number_of_string stub_libs = no_numeric_strings"
  by (simp add: stub_libs_def)

lemma kept_rows_no_outliers: "kept_rows ex [] xs = xs"
  by (simp add: kept_rows_def filter_idx_eq map_nth)

lemma run10:
  "\<exists>r. performClustering stub_libs () data10 [''a''] ex = Inr (r, ())"
proof -
  have "2 \<le> length (kept_rows (default_false ex) [9] S10)"
    by (simp add: kept_rows_def filter_idx_eq S10_def upt_conv_Cons del: upt_Suc)
  from performClustering_returns[of stub_libs data10 "[''a'']" S10 "[9]" ex "()",
      unfolded stub_number_of_string, OF standardize_data10 detectOutliers_S10 stub_kmeans_accepts
      stub_pca_returns this]
  show ?thesis
    by simp
qed

text \<open>
  A run of C9 on the ten rows, with and without exclusion: the tenth row is the outlier.
\<close>

theorem performClustering_labels_witness:
  "kmeans_labels_ok stub_libs \<and> pca_rows_ok stub_libs
   \<and> (\<exists>r. performClustering stub_libs () data10 [''a''] (JBool True) = Inr (r, ())
         \<and> length (cr_pcaData r) = 10
         \<and> 9 \<in> set (cr_outlierIndices r)
         \<and> p_cluster (cr_pcaData r ! 9) = Some (- 1) \<and> p_isOutlier (cr_pcaData r ! 9))
   \<and> (\<exists>r. performClustering stub_libs () data10 [''a''] (JBool False) = Inr (r, ())
         \<and> (\<exists>c<cr_k r. p_cluster (cr_pcaData r ! 9) = Some (int c))
         \<and> (\<Sum>c<cr_k r. length (filter (\<lambda>p. p_cluster p = Some (int c)) (cr_pcaData r))) = 10)"
proof -
  have len: "length data10 = 10"
    by (simp add: data10_def)
  have outl: "cr_outlierIndices r = [9]"
    if "performClustering stub_libs () data10 [''a''] ex = Inr (r, ())" for r ex
    using that
    by (rule performClustering_Inr)
       (simp add: stub_number_of_string standardize_data10 detectOutliers_S10)
  from run10 obtain r1 where r1: "performClustering stub_libs () data10 [''a''] (JBool True) = Inr (r1, ())"
    by blast
  from run10 obtain r2 where r2: "performClustering stub_libs () data10 [''a''] (JBool False) = Inr (r2, ())"
    by blast
  note t1 = performClustering_labels[OF stub_kmeans_labels_ok stub_pca_rows_ok r1]
  note t2 = performClustering_labels[OF stub_kmeans_labels_ok stub_pca_rows_ok r2]
  have nine: "(9::nat) < length data10"
    by (simp add: len)
  from t1 have "\<forall>i<length data10.
                (i \<in> set (cr_outlierIndices r1) \<longrightarrow>
                   p_cluster (cr_pcaData r1 ! i) = Some (- 1) \<and> p_isOutlier (cr_pcaData r1 ! i))"
    by simp
  with nine have "9 \<in> set (cr_outlierIndices r1) \<longrightarrow>
                   p_cluster (cr_pcaData r1 ! 9) = Some (- 1) \<and> p_isOutlier (cr_pcaData r1 ! 9)"
    by blast
  moreover have "9 \<in> set (cr_outlierIndices r1)"
    by (simp add: outl[OF r1])
  moreover have "length (cr_pcaData r1) = 10"
    using t1 by (simp add: len)
  ultimately have a: "length (cr_pcaData r1) = 10" "9 \<in> set (cr_outlierIndices r1)"
    "p_cluster (cr_pcaData r1 ! 9) = Some (- 1)" "p_isOutlier (cr_pcaData r1 ! 9)"
    by simp_all
  from t2 have "\<forall>i<length data10. \<exists>c<cr_k r2. p_cluster (cr_pcaData r2 ! i) = Some (int c)"
    and s: "(\<Sum>c<cr_k r2. length (filter (\<lambda>p. p_cluster p = Some (int c)) (cr_pcaData r2))) = length data10"
    by simp_all
  with nine have b: "\<exists>c<cr_k r2. p_cluster (cr_pcaData r2 ! 9) = Some (int c)"
    "(\<Sum>c<cr_k r2. length (filter (\<lambda>p. p_cluster p = Some (int c)) (cr_pcaData r2))) = 10"
    by (blast, simp add: len)
  from a b r1 r2 stub_kmeans_labels_ok stub_pca_rows_ok show ?thesis
    by blast
qed


lemma run_small:
  assumes "data \<noteq> []" and "2 \<le> length data" and "length data < 5"
  shows "\<exists>r. performClustering stub_libs () data cols ex = Inr (r, ())"
proof -
  from standardize_eq[OF assms(1), of no_numeric_strings cols]
  obtain scaled where st: "standardize no_numeric_strings data cols = Inr scaled"
    by blast
  have n: "length scaled = length data"
    using st by (rule standardize_length)
  have out: "detectOutliers stub_libs scaled = Inr []"
    using assms(3) n by (simp add: detectOutliers_small)
  have "2 \<le> length (kept_rows (default_false ex) [] scaled)"
    using assms(2) n by (simp add: kept_rows_no_outliers)
  from performClustering_returns[of stub_libs data cols scaled "[]" ex "()",
      unfolded stub_number_of_string, OF st out stub_kmeans_accepts stub_pca_returns this]
  show ?thesis
    by simp
qed

lemma three_rows_k:
  assumes "length data = 3" and "performClustering env s data cols ex = Inr (r, s')"
  shows "cr_k r = 2"
proof -
  from assms(2) obtain scaled out bestK metrics s1 where
    st: "standardize (number_of_string env) data cols = Inr scaled"
    and o: "detectOutliers env scaled = Inr out"
    and g: "getSuggestedK env s (kept_rows (default_false ex) out scaled) = Inr ((bestK, metrics), s1)"
    and k: "cr_k r = bestK"
    by (rule performClustering_Inr)
  have n: "length scaled = 3"
    using standardize_length[OF st] assms(1) by simp
  then have "out = []"
    using o by (simp add: detectOutliers_small)
  then have l: "length (kept_rows (default_false ex) out scaled) = 3"
    using n by (simp add: kept_rows_no_outliers)
  then have "3 \<le> length (kept_rows (default_false ex) out scaled)"
    by simp
  from getSuggestedK_range[OF this g] show ?thesis
    unfolding k l by simp
qed

text \<open>
  C2 (the code differs).  There is no entry point that takes \<open>k\<close>: both callers pass
  \<open>(data, selectedCols, k, mode)\<close> to the three-parameter \<^verbatim>\<open>performClustering\<close>.  On the three
  rows the first call, made with \<open>K = 5\<close> and the mode \<^verbatim>\<open>false\<close>, returns \<open>k = 2\<close> (chosen by
  \<^verbatim>\<open>getSuggestedK\<close>) and stores 5 as \<^verbatim>\<open>excludeOutliers\<close>; the mode switch to \<^verbatim>\<open>false\<close> runs
  \<^verbatim>\<open>performClustering\<close> with 2 as its third argument and stores 2 as \<^verbatim>\<open>excludeOutliers\<close>.
\<close>

theorem callers_k_and_mode_not_used:
  "\<not> isl first_run
   \<and> cr_k (fst (projr first_run)) = 2
   \<and> cr_excludeOutliers (fst (projr first_run)) = JNumber (Fin 5)
   \<and> second_run = Some (performClustering stub_libs () data3 [''a'', ''b''] (JNumber (Fin 2)))
   \<and> \<not> isl (the second_run)
   \<and> cr_excludeOutliers (fst (projr (the second_run))) = JNumber (Fin 2)"
proof -
  have d: "data3 \<noteq> []" "2 \<le> length data3" "length data3 < 5" "length data3 = 3"
    by (simp_all add: data3_def)
  from run_small[OF d(1-3)] obtain r1
    where r1: "performClustering stub_libs () data3 [''a'', ''b''] (JNumber (Fin 5)) = Inr (r1, ())"
    by blast
  then have f: "first_run = Inr (r1, ())"
    by (simp add: first_run_def performClustering_call4_def)
  have k1: "cr_k r1 = 2"
    using d(4) r1 by (rule three_rows_k)
  have e1: "cr_excludeOutliers r1 = JNumber (Fin 5)"
    using r1 by (rule performClustering_Inr) (simp add: default_false_def)
  have s: "second_run = Some (performClustering stub_libs () data3 [''a'', ''b''] (JNumber (Fin 2)))"
    by (simp add: second_run_def switchClusterMode_def performClustering_call4_def f k1)
  from run_small[OF d(1-3)] obtain r2
    where r2: "performClustering stub_libs () data3 [''a'', ''b''] (JNumber (Fin 2)) = Inr (r2, ())"
    by blast
  have e2: "cr_excludeOutliers r2 = JNumber (Fin 2)"
    using r2 by (rule performClustering_Inr) (simp add: default_false_def)
  show ?thesis
    by (simp add: f k1 e1 s r2 e2)
qed


lemma standardize_no_rows:
  assumes "cols \<noteq> []"
  shows "standardize nos [] cols = Inl (Error ''mean requires at least one data point'')"
proof -
  obtain c cs where c: "cols = c # cs"
    using assms by (cases cols) auto
  have "[0..<length cols] = 0 # [1..<length cols]"
    by (simp add: c upt_conv_Cons del: upt_Suc)
  then have "fit_means [] (length cols) = Inl (Error ''mean requires at least one data point'')"
    by (simp add: fit_means_def column_def ss_mean_def)
  then show ?thesis
    by (simp add: standardize_def featureMatrix_def)
qed

lemma stub_kmeans_rejects: "kmeans_rejects stub_libs"
  by (simp add: kmeans_rejects_def stub_libs_def stub_kmeans_def)

lemma one_row_run:
  assumes "length data = 1"
  shows "\<exists>scaled. standardize (number_of_string env) data selectedCols = Inr scaled
           \<and> length scaled = 1
           \<and> performClustering env s data selectedCols excludeOutliers
               = (case kmeans env s scaled 2 of
                    Inl e \<Rightarrow> Inl e
                  | Inr run \<Rightarrow> performClustering env s data selectedCols excludeOutliers)"
proof -
  have ne: "data \<noteq> []"
    using assms by auto
  from standardize_eq[OF ne, of "number_of_string env" selectedCols]
  obtain scaled where st: "standardize (number_of_string env) data selectedCols = Inr scaled"
    by blast
  have n: "length scaled = 1"
    using standardize_length[OF st] assms by simp
  have out: "detectOutliers env scaled = Inr []"
    using n by (simp add: detectOutliers_small)
  have g: "getSuggestedK env s (kept_rows (default_false excludeOutliers) [] scaled) = Inr ((2, []), s)"
    using n by (simp add: getSuggestedK_small kept_rows_no_outliers)
  have "performClustering env s data selectedCols excludeOutliers = Inl e"
    if "kmeans env s scaled 2 = Inl e" for e
    using that g unfolding performClustering_def Let_def
    by (simp add: st out kept_rows_no_outliers)
  then have "performClustering env s data selectedCols excludeOutliers
               = (case kmeans env s scaled 2 of
                    Inl e \<Rightarrow> Inl e
                  | Inr run \<Rightarrow> performClustering env s data selectedCols excludeOutliers)"
    by (cases "kmeans env s scaled 2") simp_all
  with st n show ?thesis
    by blast
qed

lemma no_rows_no_columns_run:
  "performClustering env s [] [] excludeOutliers
     = (case kmeans env s [] 2 of
          Inl e \<Rightarrow> Inl e
        | Inr run \<Rightarrow> performClustering env s [] [] excludeOutliers)"
proof -
  have st: "standardize (number_of_string env) [] [] = Inr []"
    by (simp add: standardize_def featureMatrix_def fit_means_def fit_stds_def scale_matrix_def)
  have out: "detectOutliers env [] = Inr []"
    by (simp add: detectOutliers_small)
  have g: "getSuggestedK env s (kept_rows (default_false excludeOutliers) [] []) = Inr ((2, []), s)"
    by (simp add: getSuggestedK_small kept_rows_no_outliers)
  have "performClustering env s [] [] excludeOutliers = Inl e"
    if "kmeans env s [] 2 = Inl e" for e
    using that g unfolding performClustering_def Let_def
    by (simp add: st out kept_rows_no_outliers)
  then show ?thesis
    by (cases "kmeans env s [] 2") simp_all
qed

text \<open>
  C1 (as amended).  Neither \<^verbatim>\<open>performClustering\<close> nor \<^verbatim>\<open>getSuggestedK\<close> checks the number
  of rows.  On fewer than three rows \<^verbatim>\<open>getSuggestedK\<close> runs no trial and returns 2 with no
  metric.  Without rows, and with a selected column, the run ends with the error that
  \<^verbatim>\<open>ss.mean\<close> throws.  On one row the run reaches the final k-means call with \<open>k = 2\<close> on the
  one scaled row, and ends with the error of that call when the library throws, which the
  k-means package does for a \<open>k\<close> above the number of rows; so with that library every run
  on fewer than two rows ends with an error and returns nothing.  On two rows the run
  returns a result with \<open>k = 2\<close>, no metric and no outlier when the k-means library accepts
  every \<open>k\<close> up to the number of rows and the projection does not throw.
\<close>

theorem performClustering_small_population:
  "(data = [] \<and> selectedCols \<noteq> [] \<longrightarrow>
      performClustering env s data selectedCols excludeOutliers
        = Inl (Error ''mean requires at least one data point''))
   \<and> (length m < 3 \<longrightarrow> getSuggestedK env s m = Inr ((2, []), s))
   \<and> (length data = 1 \<and> kmeans_rejects env \<longrightarrow>
        (\<exists>scaled e. standardize (number_of_string env) data selectedCols = Inr scaled
           \<and> length scaled = 1
           \<and> kmeans env s scaled 2 = Inl e
           \<and> performClustering env s data selectedCols excludeOutliers = Inl e))
   \<and> (length data < 2 \<and> kmeans_rejects env \<longrightarrow>
        isl (performClustering env s data selectedCols excludeOutliers))
   \<and> (length data = 2 \<and> kmeans_accepts env \<and> (\<forall>p. \<not> isl (pca_predict env p)) \<longrightarrow>
        (\<exists>r s'. performClustering env s data selectedCols excludeOutliers = Inr (r, s')
           \<and> cr_k r = 2 \<and> cr_metrics r = [] \<and> cr_outlierIndices r = []))"
proof -
  have none: "performClustering env s data selectedCols excludeOutliers
        = Inl (Error ''mean requires at least one data point'')"
    if "data = [] \<and> selectedCols \<noteq> []"
    using that by (simp add: performClustering_def standardize_no_rows)
  have sweep: "getSuggestedK env s m = Inr ((2, []), s)" if "length m < 3"
    using that by (rule getSuggestedK_small)
  have one: "\<exists>scaled e. standardize (number_of_string env) data selectedCols = Inr scaled
           \<and> length scaled = 1
           \<and> kmeans env s scaled 2 = Inl e
           \<and> performClustering env s data selectedCols excludeOutliers = Inl e"
    if h: "length data = 1 \<and> kmeans_rejects env"
  proof -
    from h one_row_run[of data env selectedCols s excludeOutliers]
    obtain scaled where st: "standardize (number_of_string env) data selectedCols = Inr scaled"
      and n: "length scaled = 1"
      and run: "performClustering env s data selectedCols excludeOutliers
               = (case kmeans env s scaled 2 of
                    Inl e \<Rightarrow> Inl e
                  | Inr run \<Rightarrow> performClustering env s data selectedCols excludeOutliers)"
      by blast
    have "isl (kmeans env s scaled 2)"
      using h n unfolding kmeans_rejects_def by simp
    then obtain e where e: "kmeans env s scaled 2 = Inl e"
      by (cases "kmeans env s scaled 2") auto
    with run have "performClustering env s data selectedCols excludeOutliers = Inl e"
      by simp
    with st n e show ?thesis
      by blast
  qed
  have few: "isl (performClustering env s data selectedCols excludeOutliers)"
    if h: "length data < 2 \<and> kmeans_rejects env"
  proof (cases "length data = 1")
    case True
    with h one show ?thesis
      by auto
  next
    case False
    with h have d: "data = []"
      by (cases data) auto
    show ?thesis
    proof (cases "selectedCols = []")
      case False
      with d none show ?thesis
        by simp
    next
      case True
      have "isl (kmeans env s [] 2)"
        using h unfolding kmeans_rejects_def by simp
      then obtain e where "kmeans env s [] 2 = Inl e"
        by (cases "kmeans env s [] 2") auto
      with no_rows_no_columns_run[of env s excludeOutliers]
      show ?thesis
        by (simp add: d True)
    qed
  qed
  have two: "\<exists>r s'. performClustering env s data selectedCols excludeOutliers = Inr (r, s')
           \<and> cr_k r = 2 \<and> cr_metrics r = [] \<and> cr_outlierIndices r = []"
    if libs: "length data = 2 \<and> kmeans_accepts env \<and> (\<forall>p. \<not> isl (pca_predict env p))"
  proof -
    have ne: "data \<noteq> []"
      using libs by auto
    from standardize_eq[OF ne, of "number_of_string env" selectedCols]
    obtain scaled where st: "standardize (number_of_string env) data selectedCols = Inr scaled"
      by blast
    have n: "length scaled = 2"
      using standardize_length[OF st] libs by simp
    have out: "detectOutliers env scaled = Inr []"
      using n by (simp add: detectOutliers_small)
    have ge: "2 \<le> length (kept_rows (default_false excludeOutliers) [] scaled)"
      using n by (simp add: kept_rows_no_outliers)
    from libs have "kmeans_accepts env" "\<not> isl (pca_predict env scaled)"
      by simp_all
    from performClustering_returns[OF st out this ge, of s]
    obtain r s' where run: "performClustering env s data selectedCols excludeOutliers = Inr (r, s')"
      by blast
    from run obtain scaled' out' bestK metrics s1 where
      st': "standardize (number_of_string env) data selectedCols = Inr scaled'"
      and o: "detectOutliers env scaled' = Inr out'"
      and g: "getSuggestedK env s (kept_rows (default_false excludeOutliers) out' scaled')
                = Inr ((bestK, metrics), s1)"
      and k: "cr_k r = bestK" "cr_metrics r = metrics" "cr_outlierIndices r = out'"
      by (rule performClustering_Inr)
    have sc: "scaled' = scaled"
      using st st' by simp
    have o': "out' = []"
      using o out sc by simp
    have "length (kept_rows (default_false excludeOutliers) out' scaled') < 3"
      using n by (simp add: o' sc kept_rows_no_outliers)
    from getSuggestedK_small[OF this, of env s] g have "bestK = 2" "metrics = []"
      by simp_all
    with k o' run show ?thesis
      by simp
  qed
  from none sweep one few two show ?thesis
    by blast
qed

text \<open>
  No row, one row and two rows with the stand-ins: the error of \<^verbatim>\<open>ss.mean\<close>, the error of
  the k-means call, and a result with \<open>k = 2\<close>.
\<close>

theorem performClustering_small_population_witness:
  "kmeans_rejects stub_libs \<and> kmeans_accepts stub_libs
   \<and> performClustering stub_libs () [] [''a'', ''b''] (JBool False)
       = Inl (Error ''mean requires at least one data point'')
   \<and> getSuggestedK stub_libs () [[0, 1], [2, 3]] = Inr ((2, []), ())
   \<and> performClustering stub_libs () [row_ab 1 2] [''a'', ''b''] (JBool False)
       = Inl (Error ''K should be a positive integer smaller than the number of points'')
   \<and> isl (performClustering stub_libs () [] [] (JBool False))
   \<and> (\<exists>r. performClustering stub_libs () [row_ab 1 2, row_ab 3 5] [''a'', ''b''] (JBool False) = Inr (r, ())
         \<and> cr_k r = 2 \<and> cr_metrics r = [] \<and> cr_outlierIndices r = [])"
proof -
  note t = performClustering_small_population
  have p: "\<forall>p. \<not> isl (pca_predict stub_libs p)"
    by (simp add: stub_pca_returns)
  have a: "performClustering stub_libs () [] [''a'', ''b''] (JBool False)
     = Inl (Error ''mean requires at least one data point'')"
    using t[of "[]" "[''a'', ''b'']" stub_libs "()" "JBool False"] by simp
  have b: "getSuggestedK stub_libs () [[0, 1], [2, 3]] = Inr ((2, []), ())"
    using t[of _ _ stub_libs "()" _ "[[0, 1], [2, 3]]"] by simp
  have "length [row_ab 1 2] = 1 \<and> kmeans_rejects stub_libs"
    using stub_kmeans_rejects by simp
  with t[of "[row_ab 1 2]" "[''a'', ''b'']" stub_libs "()" "JBool False" "[]"]
  obtain scaled e where "kmeans stub_libs () scaled 2 = Inl e"
    and "performClustering stub_libs () [row_ab 1 2] [''a'', ''b''] (JBool False) = Inl e"
    by blast
  then have c: "performClustering stub_libs () [row_ab 1 2] [''a'', ''b''] (JBool False)
       = Inl (Error ''K should be a positive integer smaller than the number of points'')"
    by (auto simp: stub_libs_def stub_kmeans_def split: if_splits)
  have d: "isl (performClustering stub_libs () [] [] (JBool False))"
    using t[of "[]" "[]" stub_libs "()" "JBool False"] stub_kmeans_rejects by simp
  from t[of "[row_ab 1 2, row_ab 3 5]" "[''a'', ''b'']" stub_libs "()" "JBool False"]
    stub_kmeans_accepts p
  have "\<exists>r s'. performClustering stub_libs () [row_ab 1 2, row_ab 3 5] [''a'', ''b''] (JBool False) = Inr (r, s')
         \<and> cr_k r = 2 \<and> cr_metrics r = [] \<and> cr_outlierIndices r = []"
    by simp
  then have e: "\<exists>r. performClustering stub_libs () [row_ab 1 2, row_ab 3 5] [''a'', ''b''] (JBool False) = Inr (r, ())
         \<and> cr_k r = 2 \<and> cr_metrics r = [] \<and> cr_outlierIndices r = []"
    by auto
  from a b c d e stub_kmeans_rejects stub_kmeans_accepts show ?thesis
    by simp
qed

text \<open>
  C1 as stated fails: a run on two rows is not rejected, it returns a result.
\<close>

theorem two_rows_not_rejected:
  "\<not> isl (performClustering stub_libs () [row_ab 1 2, row_ab 3 5] [''a'', ''b''] (JBool False))"
proof -
  have "\<exists>r. performClustering stub_libs () [row_ab 1 2, row_ab 3 5] [''a'', ''b''] (JBool False) = Inr (r, ())"
    by (rule run_small) simp_all
  then show ?thesis
    by auto
qed


end
